theory Spec2Isabelle
  imports Main
begin

section \<open>Values of the platform\<close>

text \<open>
  The value of \<open>req.body.text\<close> after the JSON body parser: the key is absent
  (\<open>undefined\<close>), \<open>null\<close>, or a string. Other JSON values are not modelled.
\<close>

datatype jsval = Undefined | Null | Str string

text \<open>JavaScript truthiness, as \<open>!text\<close> and \<open>!user_id\<close> test it.\<close>

definition truthy :: "jsval \<Rightarrow> bool" where
  "truthy v = (case v of Undefined \<Rightarrow> False | Null \<Rightarrow> False | Str s \<Rightarrow> s \<noteq> [])"

definition truthy_id :: "nat option \<Rightarrow> bool" where
  "truthy_id v = (case v of None \<Rightarrow> False | Some n \<Rightarrow> n \<noteq> 0)"

text \<open>
  Points in time are milliseconds since the epoch, as \<open>Date.prototype.getTime\<close> returns
  them. The two built-ins of \<open>Date\<close> that the protocol uses are parameters of the model:
  \<open>Date_parse s\<close> is the time value of \<open>new Date(s)\<close>, \<open>None\<close> when it is \<open>NaN\<close>
  (an invalid date), and \<open>toISOString t\<close> is the ISO-8601 text of the time \<open>t\<close>.
\<close>

record platform =
  Date_parse :: "string \<Rightarrow> int option"
  toISOString :: "int \<Rightarrow> string"

text \<open>An exception thrown by a query, with its \<open>message\<close>.\<close>

datatype exn = Error (message: string)

section \<open>The store: src/models/message.js and the model of src/models/user.js\<close>

text \<open>
  A row of \<open>Message\<close> (text, user_id, and the id and timestamps that Sequelize adds), and
  the columns of \<open>User\<close> that the message routes read.
\<close>

record message =
  msg_id :: nat
  "text" :: string
  user_id :: nat
  createdAt :: int
  updatedAt :: int

record user =
  usr_id :: nat
  firstName :: string
  lastName :: string

text \<open>
  The database behind Sequelize: both tables, the next auto-increment id of \<open>Message\<close>,
  and \<open>fault\<close>, which is \<open>Some e\<close> while every query rejects with the error \<open>e\<close>
  (the connection is down) and \<open>None\<close> otherwise.
\<close>

record database =
  messages :: "message list"
  users :: "user list"
  next_id :: nat
  fault :: "exn option"

text \<open>
  The validators that models/message.js declares for \<open>text\<close>: \<open>allowNull: false\<close> and
  \<open>len: [1, 500]\<close>. The result is the message of the validation error, if any.
\<close>

definition validate_text :: "jsval \<Rightarrow> string option" where
  "validate_text v =
     (case v of
        Undefined \<Rightarrow> Some ''notNull Violation: Message.text cannot be null''
      | Null \<Rightarrow> Some ''notNull Violation: Message.text cannot be null''
      | Str s \<Rightarrow>
          if 1 \<le> length s \<and> length s \<le> 500 then None
          else Some ''Validation error: Validation len on text failed'')"

text \<open>
  The \<open>where\<close> clause \<open>{ id: messageId, user_id: user_id }\<close>. A \<open>user_id\<close> of
  \<open>null\<close> matches no row, the column being \<open>allowNull: false\<close>.
\<close>

definition matches :: "nat \<Rightarrow> nat option \<Rightarrow> message \<Rightarrow> bool" where
  "matches messageId uid m = (msg_id m = messageId \<and> uid = Some (user_id m))"

text \<open>
  Modelled from the spec: the case folding of \<open>LIKE\<close>. It is the dialect's, which
  models/index.js configures, and that file is not under src/. The specification says that
  the match is case-insensitive; the folding here is that of the ASCII letters, \<open>A\<close> to
  \<open>Z\<close> onto \<open>a\<close> to \<open>z\<close>, every other character being left as it is.
\<close>

definition lower :: "char \<Rightarrow> char" where
  "lower c = (let n = (of_char c :: nat) in if 65 \<le> n \<and> n \<le> 90 then char_of (n + 32) else c)"

text \<open>
  SQL \<open>LIKE\<close>: \<open>%\<close> matches any run of characters, \<open>_\<close> any one character, and
  any other character matches the characters with the same folding. Sequelize quotes the
  pattern as a string literal and leaves \<open>%\<close> and \<open>_\<close> as they are.
\<close>

fun like :: "string \<Rightarrow> string \<Rightarrow> bool" where
  "like [] [] = True"
| "like [] (c # cs) = False"
| "like (p # ps) [] = (p = CHR ''%'' \<and> like ps [])"
| "like (p # ps) (c # cs) =
     (if p = CHR ''%'' then like ps (c # cs) \<or> like (p # ps) cs
      else if p = CHR ''_'' then like ps cs
      else lower p = lower c \<and> like ps cs)"

text \<open>The calls of Sequelize that the controllers make. Each rejects while the database is down.\<close>

definition find_user :: "database \<Rightarrow> nat \<Rightarrow> user option" where
  "find_user d uid = find (\<lambda>u. usr_id u = uid) (users d)"

text \<open>\<open>Message.findAll({ include: User })\<close>: every row with the user it belongs to, if any.\<close>

definition Message_findAll :: "database \<Rightarrow> exn + (message \<times> user option) list" where
  "Message_findAll d =
     (case fault d of
        Some e \<Rightarrow> Inl e
      | None \<Rightarrow> Inr (map (\<lambda>m. (m, find_user d (user_id m))) (messages d)))"

text \<open>\<open>Message.findAll({ where: { text: { [Op.like]: pattern } }, include: User })\<close>.\<close>

definition Message_findAll_like :: "string \<Rightarrow> database \<Rightarrow> exn + (message \<times> user option) list" where
  "Message_findAll_like pattern d =
     (case fault d of
        Some e \<Rightarrow> Inl e
      | None \<Rightarrow>
          Inr (map (\<lambda>m. (m, find_user d (user_id m)))
                 (filter (\<lambda>m. like pattern (text m)) (messages d))))"

text \<open>\<open>Message.destroy({ where })\<close>: the number of rows deleted.\<close>

definition Message_destroy :: "nat \<Rightarrow> nat option \<Rightarrow> database \<Rightarrow> exn + (nat \<times> database)" where
  "Message_destroy messageId uid d =
     (case fault d of
        Some e \<Rightarrow> Inl e
      | None \<Rightarrow>
          Inr (length (filter (matches messageId uid) (messages d)),
               d\<lparr>messages := filter (\<lambda>m. \<not> matches messageId uid m) (messages d)\<rparr>))"

text \<open>
  \<open>Message.update({ text }, { where })\<close>. A value of \<open>undefined\<close> is left out of
  the update; with nothing but \<open>updatedAt\<close> left to set, Sequelize makes no query and
  returns \<open>[0]\<close>. A value that is given is validated before the query runs; the query
  sets it, and \<open>updatedAt\<close>, in every row that matches. The result is the number of
  those rows.
\<close>

definition set_text :: "string \<Rightarrow> int \<Rightarrow> message \<Rightarrow> message" where
  "set_text s now m = m\<lparr>text := s, updatedAt := now\<rparr>"

definition Message_update ::
  "jsval \<Rightarrow> nat \<Rightarrow> nat option \<Rightarrow> int \<Rightarrow> database \<Rightarrow> exn + (nat \<times> database)" where
  "Message_update v messageId uid now d =
     (if v = Undefined then Inr (0, d)
      else
        (case validate_text v of
           Some e \<Rightarrow> Inl (Error e)
         | None \<Rightarrow>
             (case fault d of
                Some e \<Rightarrow> Inl e
              | None \<Rightarrow>
                  Inr (length (filter (matches messageId uid) (messages d)),
                       d\<lparr>messages :=
                            map (\<lambda>m. if matches messageId uid m
                                     then set_text (case v of Str s \<Rightarrow> s | _ \<Rightarrow> []) now m
                                     else m)
                              (messages d)\<rparr>))))"

text \<open>\<open>Message.findOne({ where })\<close>: the first row that matches, or \<open>null\<close>.\<close>

definition Message_findOne :: "nat \<Rightarrow> nat option \<Rightarrow> database \<Rightarrow> exn + message option" where
  "Message_findOne messageId uid d =
     (case fault d of
        Some e \<Rightarrow> Inl e
      | None \<Rightarrow> Inr (find (matches messageId uid) (messages d)))"

text \<open>\<open>User.findByPk(user_id)\<close>; \<open>null\<close> for the key \<open>null\<close>.\<close>

definition User_findByPk :: "nat option \<Rightarrow> database \<Rightarrow> exn + user option" where
  "User_findByPk uid d =
     (case fault d of
        Some e \<Rightarrow> Inl e
      | None \<Rightarrow> Inr (case uid of None \<Rightarrow> None | Some k \<Rightarrow> find_user d k))"

text \<open>
  \<open>Message.create({ text, user_id })\<close>: the values are validated, then the row is inserted
  under the next id.
\<close>

definition Message_create ::
  "jsval \<Rightarrow> nat option \<Rightarrow> int \<Rightarrow> database \<Rightarrow> exn + (message \<times> database)" where
  "Message_create v uid now d =
     (case validate_text v of
        Some e \<Rightarrow> Inl (Error e)
      | None \<Rightarrow>
          (case uid of
             None \<Rightarrow> Inl (Error ''notNull Violation: Message.user_id cannot be null'')
           | Some u \<Rightarrow>
               (case fault d of
                  Some e \<Rightarrow> Inl e
                | None \<Rightarrow>
                    (let m = \<lparr>msg_id = next_id d,
                              text = (case v of Str s \<Rightarrow> s | _ \<Rightarrow> []),
                              user_id = u, createdAt = now, updatedAt = now\<rparr>
                     in Inr (m, d\<lparr>messages := messages d @ [m], next_id := Suc (next_id d)\<rparr>)))))"

section \<open>The server: the controllers of src/models/user.js\<close>

text \<open>
  The session of a caller (\<open>req.session\<close>), the parts of a request that the handlers
  read, and the responses they send. \<open>params_id\<close> is \<open>req.params.id\<close>, taken to be a
  numeral; \<open>query_text\<close> is \<open>req.query.text\<close>, \<open>header_last_update\<close> is
  \<open>req.headers['last-update']\<close>, each \<open>None\<close> when absent.
\<close>

record session =
  userId :: "nat option"
  isLoggedIn :: bool
  fullName :: "string option"
  lastUpdate :: "int option"

record http_request =
  params_id :: nat
  body_text :: jsval
  query_text :: "string option"
  header_last_update :: "string option"

record req = http_request +
  session :: session

text \<open>
  A message as the list routes send it: the row and the \<open>fullName\<close> of its author. (The
  nested \<open>User\<close> object of \<open>toJSON\<close> repeats the two names and is left out.)
\<close>

record message_full = message +
  fullName_of :: string

datatype body =
    JNull
  | JError string
  | JErrorDetails string string
  | JInfo string
  | JAuthenticated nat
  | JMessage message
  | JMessages "message_full list"
  | JCheck bool string

record response =
  status :: nat
  body :: body

text \<open>
  The state of the process: the database and the module variable \<open>lastServerUpdate\<close>,
  the watermark. A handler takes the request, the reading \<open>now\<close> of the clock that its
  \<open>new Date()\<close> would make, and the state; it returns the response, the session as it
  leaves it, and the state as it leaves it.
\<close>

record server =
  db :: database
  lastServerUpdate :: int

type_synonym result = "response \<times> session \<times> server"

definition logout :: "req \<Rightarrow> server \<Rightarrow> result" where
  "logout rq s =
     (\<lparr>status = 200, body = JInfo ''Logged out successfully''\<rparr>,
      (session rq)\<lparr>userId := None, isLoggedIn := False, fullName := None\<rparr>,
      s)"

text \<open>
  \<open>messages.map(...)\<close> of both list routes. Reading \<open>message.User.firstName\<close> throws
  when the row has no user, which the handler's \<open>catch\<close> turns into a 500.
\<close>

definition with_fullName :: "message \<Rightarrow> string \<Rightarrow> message_full" where
  "with_fullName m n =
     \<lparr>msg_id = msg_id m, text = text m, user_id = user_id m, createdAt = createdAt m,
      updatedAt = updatedAt m, fullName_of = n\<rparr>"

fun messagesWithFullNames :: "(message \<times> user option) list \<Rightarrow> message_full list option" where
  "messagesWithFullNames [] = Some []"
| "messagesWithFullNames ((m, None) # rows) = None"
| "messagesWithFullNames ((m, Some u) # rows) =
     (case messagesWithFullNames rows of
        None \<Rightarrow> None
      | Some ms \<Rightarrow> Some (with_fullName m (firstName u @ '' '' @ lastName u) # ms))"

definition getAllMessages :: "req \<Rightarrow> int \<Rightarrow> server \<Rightarrow> result" where
  "getAllMessages rq now s =
     (case Message_findAll (db s) of
        Inl e \<Rightarrow> (\<lparr>status = 500, body = JError ''Internal server error''\<rparr>, session rq, s)
      | Inr rows \<Rightarrow>
          (let sess = (session rq)\<lparr>lastUpdate := Some now\<rparr> in
           case messagesWithFullNames rows of
             None \<Rightarrow> (\<lparr>status = 500, body = JError ''Internal server error''\<rparr>, sess, s)
           | Some ms \<Rightarrow> (\<lparr>status = 200, body = JMessages ms\<rparr>, sess, s)))"

definition deleteMessage :: "req \<Rightarrow> int \<Rightarrow> server \<Rightarrow> result" where
  "deleteMessage rq now s =
     (let messageId = params_id rq; user_id = userId (session rq) in
      case Message_destroy messageId user_id (db s) of
        Inl e \<Rightarrow> (\<lparr>status = 500, body = JError ''Internal server error''\<rparr>, session rq, s)
      | Inr (deletedMessage, d) \<Rightarrow>
          if deletedMessage = 0
          then (\<lparr>status = 404, body = JError ''Message not found''\<rparr>, session rq, s\<lparr>db := d\<rparr>)
          else (\<lparr>status = 200, body = JInfo ''Message deleted successfully''\<rparr>, session rq,
                s\<lparr>db := d, lastServerUpdate := now\<rparr>))"

definition updateMessage :: "req \<Rightarrow> int \<Rightarrow> server \<Rightarrow> result" where
  "updateMessage rq now s =
     (let messageId = params_id rq; text = body_text rq; user_id = userId (session rq) in
      case Message_update text messageId user_id now (db s) of
        Inl e \<Rightarrow> (\<lparr>status = 500, body = JError ''Internal server error''\<rparr>, session rq, s)
      | Inr (updated, d) \<Rightarrow>
          if updated \<noteq> 0
          then (case Message_findOne messageId user_id d of
                  Inl e \<Rightarrow>
                    (\<lparr>status = 500, body = JError ''Internal server error''\<rparr>, session rq,
                     s\<lparr>db := d\<rparr>)
                | Inr updatedMessage \<Rightarrow>
                    (\<lparr>status = 200,
                      body = (case updatedMessage of None \<Rightarrow> JNull | Some m \<Rightarrow> JMessage m)\<rparr>,
                     session rq, s\<lparr>db := d, lastServerUpdate := now\<rparr>))
          else (\<lparr>status = 404, body = JError ''Message not found''\<rparr>, session rq, s\<lparr>db := d\<rparr>))"

text \<open>\<open>err.message || 'Error creating message'\<close>.\<close>

definition message_or :: "string \<Rightarrow> string \<Rightarrow> string" where
  "message_or m dflt = (if m = [] then dflt else m)"

definition createMessage :: "req \<Rightarrow> int \<Rightarrow> server \<Rightarrow> result" where
  "createMessage rq now s =
     (let text = body_text rq; user_id = userId (session rq) in
      if \<not> truthy text \<or> \<not> truthy_id user_id
      then (\<lparr>status = 400, body = JError ''Both text and user_id are required.''\<rparr>, session rq, s)
      else
        (case User_findByPk user_id (db s) of
           Inl e \<Rightarrow>
             (\<lparr>status = 400, body = JError (message_or (message e) ''Error creating message'')\<rparr>,
              session rq, s)
         | Inr None \<Rightarrow> (\<lparr>status = 400, body = JError ''Invalid user_id''\<rparr>, session rq, s)
         | Inr (Some user) \<Rightarrow>
             (case Message_create text user_id now (db s) of
                Inl e \<Rightarrow>
                  (\<lparr>status = 400,
                    body = JError (message_or (message e) ''Error creating message'')\<rparr>,
                   session rq, s)
              | Inr (m, d) \<Rightarrow>
                  (\<lparr>status = 201, body = JMessage m\<rparr>, session rq,
                   s\<lparr>db := d, lastServerUpdate := now\<rparr>))))"

text \<open>The \<open>sessionId\<close> of the reply is left out: no caller reads it.\<close>

definition verifyUserSession :: "req \<Rightarrow> server \<Rightarrow> result" where
  "verifyUserSession rq s =
     (case userId (session rq) of
        None \<Rightarrow> (\<lparr>status = 401, body = JInfo ''No active session''\<rparr>, session rq, s)
      | Some uid \<Rightarrow>
          if uid \<noteq> 0 then (\<lparr>status = 200, body = JAuthenticated uid\<rparr>, session rq, s)
          else (\<lparr>status = 401, body = JInfo ''No active session''\<rparr>, session rq, s))"

definition getMessagesByText :: "req \<Rightarrow> server \<Rightarrow> result" where
  "getMessagesByText rq s =
     (case query_text rq of
        None \<Rightarrow> (\<lparr>status = 400, body = JError ''Search text is required''\<rparr>, session rq, s)
      | Some searchText \<Rightarrow>
          if searchText = []
          then (\<lparr>status = 400, body = JError ''Search text is required''\<rparr>, session rq, s)
          else
            (case Message_findAll_like (''%'' @ searchText @ ''%'') (db s) of
               Inl e \<Rightarrow>
                 (\<lparr>status = 500, body = JError ''Internal server error''\<rparr>, session rq, s)
             | Inr rows \<Rightarrow>
                 (case messagesWithFullNames rows of
                    None \<Rightarrow>
                      (\<lparr>status = 500, body = JError ''Internal server error''\<rparr>, session rq, s)
                  | Some ms \<Rightarrow> (\<lparr>status = 200, body = JMessages ms\<rparr>, session rq, s))))"

text \<open>
  The cursor that \<open>checkMessages\<close> reads from the header: the epoch when the header is
  absent or empty, or when the date it gives is invalid.
\<close>

definition lastClientUpdate :: "platform \<Rightarrow> req \<Rightarrow> int" where
  "lastClientUpdate P rq =
     (case header_last_update rq of
        None \<Rightarrow> 0
      | Some h \<Rightarrow>
          if h = [] then 0
          else (case Date_parse P h of None \<Rightarrow> 0 | Some t \<Rightarrow> t))"

text \<open>
  Nothing in the body of \<open>checkMessages\<close> throws (\<open>new Date(string)\<close> gives an invalid
  date instead), so its two \<open>catch\<close> blocks have no branch here.
\<close>

definition checkMessages :: "platform \<Rightarrow> req \<Rightarrow> int \<Rightarrow> server \<Rightarrow> result" where
  "checkMessages P rq now s =
     (let hasUpdates = (lastServerUpdate s > lastClientUpdate P rq) in
      (\<lparr>status = 200, body = JCheck hasUpdates (toISOString P now)\<rparr>, session rq, s))"

text \<open>The guard: \<open>Some\<close> response when it answers itself, \<open>None\<close> when it calls \<open>next()\<close>.\<close>

definition requireAuth :: "req \<Rightarrow> response option" where
  "requireAuth rq =
     (if \<not> truthy_id (userId (session rq))
      then Some \<lparr>status = 401, body = JInfo ''Session expired''\<rparr>
      else None)"

subsection \<open>The router of the API: src/unnamed/part_000\<close>

datatype route =
    GET_verifyUserSession
  | GET_message
  | DELETE_message
  | PUT_message
  | POST_message
  | GET_logout
  | GET_searchMessagesByText
  | GET_checkMessages

text \<open>\<open>verifyUserSession\<close> is mounted before the guard, every other route behind it.\<close>

definition api :: "platform \<Rightarrow> route \<Rightarrow> req \<Rightarrow> int \<Rightarrow> server \<Rightarrow> result" where
  "api P r rq now s =
     (if r = GET_verifyUserSession then verifyUserSession rq s
      else
        (case requireAuth rq of
           Some resp \<Rightarrow> (resp, session rq, s)
         | None \<Rightarrow>
             (case r of
                GET_verifyUserSession \<Rightarrow> verifyUserSession rq s
              | GET_message \<Rightarrow> getAllMessages rq now s
              | DELETE_message \<Rightarrow> deleteMessage rq now s
              | PUT_message \<Rightarrow> updateMessage rq now s
              | POST_message \<Rightarrow> createMessage rq now s
              | GET_logout \<Rightarrow> logout rq s
              | GET_searchMessagesByText \<Rightarrow> getMessagesByText rq s
              | GET_checkMessages \<Rightarrow> checkMessages P rq now s)))"

text \<open>
  A run of requests against the process, each with the reading of the clock at which it is
  served: the results in order, every request served in the state its predecessor left.
\<close>

fun run :: "platform \<Rightarrow> (route \<times> req \<times> int) list \<Rightarrow> server \<Rightarrow> result list" where
  "run P [] s = []"
| "run P ((r, rq, now) # ops) s =
     (let res = api P r rq now s in res # run P ops (snd (snd res)))"

text \<open>The watermark after each request of a run.\<close>

definition watermarks :: "platform \<Rightarrow> (route \<times> req \<times> int) list \<Rightarrow> server \<Rightarrow> int list" where
  "watermarks P ops s = map (\<lambda>res. lastServerUpdate (snd (snd res))) (run P ops s)"

section \<open>The client: src/public/javascripts/main.js\<close>

text \<open>
  What the page holds: the children of the list \<open>#messages\<close>, the cursor
  \<open>dataset.lastUpdate\<close> of that list, \<open>currentUserId\<close>, \<open>window.location.href\<close>, the
  notifications shown so far (text and type), the value of the edit field, and whether
  the two modals are shown.
\<close>

datatype item = Placeholder string | MessageElement message_full bool

record client =
  messagesList :: "item list"
  dataset_lastUpdate :: "string option"
  currentUserId :: "nat option"
  location :: string
  notifications :: "(string \<times> string) list"
  editMessageInput :: string
  editModal :: bool
  deleteModal :: bool

text \<open>
  The client together with the server it talks to: the process, the session that the
  server keeps for this client's cookie, the page, and the requests the page has sent.
\<close>

record world =
  srv :: server
  sess :: session
  cli :: client
  requests :: "(route \<times> http_request) list"

text \<open>
  One call of \<open>fetch\<close>: \<open>up\<close> tells whether the request is answered (otherwise
  \<open>fetch\<close> rejects), \<open>srv_now\<close> is the server's clock when it is served.
\<close>

record net =
  up :: bool
  srv_now :: int

definition no_request :: http_request where
  "no_request = \<lparr>params_id = 0, body_text = Undefined, query_text = None,
                  header_last_update = None\<rparr>"

text \<open>The request as the handlers see it: what the client sent, with the caller's session.\<close>

definition request_of :: "http_request \<Rightarrow> session \<Rightarrow> req" where
  "request_of h se =
     \<lparr>params_id = params_id h, body_text = body_text h, query_text = query_text h,
      header_last_update = header_last_update h, session = se\<rparr>"

definition fetch ::
  "platform \<Rightarrow> net \<Rightarrow> route \<Rightarrow> http_request \<Rightarrow> world \<Rightarrow> response option \<times> world" where
  "fetch P n r h w =
     (let w1 = w\<lparr>requests := requests w @ [(r, h)]\<rparr> in
      if up n
      then (case api P r (request_of h (sess w)) (srv_now n) (srv w) of
              (response, se, s) \<Rightarrow> (Some response, w1\<lparr>srv := s, sess := se\<rparr>))
      else (None, w1))"

text \<open>
  \<open>response.ok\<close>, and \<open>data.error\<close> (empty when the body has no such key; no reply
  that is not \<open>ok\<close> has the body \<open>null\<close>).
\<close>

definition ok :: "response \<Rightarrow> bool" where
  "ok response = (200 \<le> status response \<and> status response \<le> 299)"

definition error_of :: "body \<Rightarrow> string" where
  "error_of data = (case data of JError e \<Rightarrow> e | JErrorDetails e d \<Rightarrow> e | _ \<Rightarrow> [])"

text \<open>The message of the error with which \<open>fetch\<close> rejects.\<close>

definition fetch_failed :: string where
  "fetch_failed = ''Failed to fetch''"

definition showNotification :: "string \<Rightarrow> string \<Rightarrow> world \<Rightarrow> world" where
  "showNotification msg type w =
     w\<lparr>cli := (cli w)\<lparr>notifications := notifications (cli w) @ [(msg, type)]\<rparr>\<rparr>"

text \<open>
  Reading \<open>data.authenticated\<close> of a \<open>null\<close> body throws, and so does a rejected
  \<open>fetch\<close>; the \<open>catch\<close> returns \<open>false\<close> without a redirect.
\<close>

definition checkSession :: "platform \<Rightarrow> net \<Rightarrow> world \<Rightarrow> bool \<times> world" where
  "checkSession P n w =
     (case fetch P n GET_verifyUserSession no_request w of
        (None, w1) \<Rightarrow> (False, w1)
      | (Some response, w1) \<Rightarrow>
          (case body response of
             JAuthenticated uid \<Rightarrow> (True, w1\<lparr>cli := (cli w1)\<lparr>currentUserId := Some uid\<rparr>\<rparr>)
           | JNull \<Rightarrow> (False, w1)
           | _ \<Rightarrow> (False, w1\<lparr>cli := (cli w1)\<lparr>location := ''/login''\<rparr>\<rparr>)))"

text \<open>An element has the edit and delete buttons when the message is the user's own.\<close>

definition createMessageElement :: "nat option \<Rightarrow> message_full \<Rightarrow> item" where
  "createMessageElement uid m = MessageElement m (Some (user_id m) = uid)"

definition addMessage :: "client \<Rightarrow> message_full \<Rightarrow> client" where
  "addMessage c m =
     c\<lparr>messagesList := messagesList c @ [createMessageElement (currentUserId c) m]\<rparr>"

definition displayMessages :: "message_full list \<Rightarrow> client \<Rightarrow> client" where
  "displayMessages ms c =
     (let c1 = c\<lparr>messagesList := []\<rparr> in
      if ms = [] then c1\<lparr>messagesList := messagesList c1 @ [Placeholder ''No messages found'']\<rparr>
      else foldl addMessage c1 ms)"

text \<open>
  \<open>Array.isArray(data) ? data : (data.messages || [])\<close>; \<open>None\<close> when reading
  \<open>data.messages\<close> throws, the body being \<open>null\<close>.
\<close>

definition messages_of :: "body \<Rightarrow> message_full list option" where
  "messages_of data = (case data of JMessages ms \<Rightarrow> Some ms | JNull \<Rightarrow> None | _ \<Rightarrow> Some [])"

text \<open>\<open>t\<close> is the reading of the client's clock when the list has been displayed.\<close>

definition fetchMessages :: "platform \<Rightarrow> net \<Rightarrow> int \<Rightarrow> world \<Rightarrow> world" where
  "fetchMessages P n t w =
     (case fetch P n GET_message no_request w of
        (None, w1) \<Rightarrow> showNotification ''Failed to fetch messages'' ''danger'' w1
      | (Some response, w1) \<Rightarrow>
          (case messages_of (body response) of
             None \<Rightarrow> showNotification ''Failed to fetch messages'' ''danger'' w1
           | Some ms \<Rightarrow>
               w1\<lparr>cli := (displayMessages ms (cli w1))
                           \<lparr>dataset_lastUpdate := Some (toISOString P t)\<rparr>\<rparr>))"

definition clear_list :: "world \<Rightarrow> world" where
  "clear_list w = w\<lparr>cli := (cli w)\<lparr>messagesList := []\<rparr>\<rparr>"

definition sendMessage :: "platform \<Rightarrow> string \<Rightarrow> net \<Rightarrow> net \<Rightarrow> int \<Rightarrow> world \<Rightarrow> world" where
  "sendMessage P messageText n1 n2 t w =
     (case fetch P n1 POST_message (no_request\<lparr>body_text := Str messageText\<rparr>) w of
        (None, w1) \<Rightarrow> showNotification fetch_failed ''danger'' w1
      | (Some response, w1) \<Rightarrow>
          if ok response
          then showNotification ''Message sent successfully'' ''success''
                 (fetchMessages P n2 t (clear_list w1))
          else showNotification
                 (message_or (error_of (body response)) ''Error sending message'') ''danger'' w1)"

definition hide_deleteModal :: "world \<Rightarrow> world" where
  "hide_deleteModal w = w\<lparr>cli := (cli w)\<lparr>deleteModal := False\<rparr>\<rparr>"

definition hide_editModal :: "world \<Rightarrow> world" where
  "hide_editModal w = w\<lparr>cli := (cli w)\<lparr>editModal := False\<rparr>\<rparr>"

text \<open>The client's \<open>deleteMessage\<close> (the server's handler has the plain name).\<close>

definition deleteMessage_client ::
  "platform \<Rightarrow> nat \<Rightarrow> net \<Rightarrow> net \<Rightarrow> int \<Rightarrow> world \<Rightarrow> world" where
  "deleteMessage_client P messageId n1 n2 t w =
     (case fetch P n1 DELETE_message (no_request\<lparr>params_id := messageId\<rparr>) w of
        (None, w1) \<Rightarrow> showNotification fetch_failed ''danger'' w1
      | (Some response, w1) \<Rightarrow>
          if ok response
          then hide_deleteModal
                 (showNotification ''Message deleted successfully'' ''success''
                    (fetchMessages P n2 t (clear_list w1)))
          else showNotification
                 (message_or (error_of (body response)) ''Error deleting message'') ''danger''
                 (hide_deleteModal w1))"

text \<open>
  \<open>String.prototype.trim\<close>. A character of the model is a code unit below 256, and the
  white space of JavaScript among those is TAB, LF, VT, FF, CR, the space, and the
  no-break space U+00A0.
\<close>

definition is_space :: "char \<Rightarrow> bool" where
  "is_space c =
     (let n = (of_char c :: nat) in (9 \<le> n \<and> n \<le> 13) \<or> n = 32 \<or> n = 160)"

definition trim :: "string \<Rightarrow> string" where
  "trim s = rev (dropWhile is_space (rev (dropWhile is_space s)))"

definition saveUpdatedMessage ::
  "platform \<Rightarrow> message_full \<Rightarrow> net \<Rightarrow> net \<Rightarrow> int \<Rightarrow> world \<Rightarrow> world" where
  "saveUpdatedMessage P m n1 n2 t w =
     (let updatedText = trim (editMessageInput (cli w)) in
      if updatedText = [] then showNotification ''Message cannot be empty'' ''danger'' w
      else
        (case fetch P n1 PUT_message
                (no_request\<lparr>params_id := msg_id m, body_text := Str updatedText\<rparr>) w of
           (None, w1) \<Rightarrow> showNotification fetch_failed ''danger'' w1
         | (Some response, w1) \<Rightarrow>
             if ok response
             then showNotification ''Message updated successfully'' ''success''
                    (hide_editModal (fetchMessages P n2 t (clear_list w1)))
             else showNotification
                    (message_or (error_of (body response)) ''Error updating message'') ''danger''
                    (hide_editModal w1)))"

text \<open>
  A failed search shows a notification and falls back to \<open>fetchMessages\<close>, for which
  \<open>n2\<close> and \<open>t\<close> stand.
\<close>

definition searchMessagesByText ::
  "platform \<Rightarrow> string \<Rightarrow> net \<Rightarrow> net \<Rightarrow> int \<Rightarrow> world \<Rightarrow> world" where
  "searchMessagesByText P searchText n1 n2 t w =
     (case fetch P n1 GET_searchMessagesByText (no_request\<lparr>query_text := Some searchText\<rparr>) w of
        (None, w1) \<Rightarrow>
          fetchMessages P n2 t
            (showNotification (''Error searching messages: '' @ fetch_failed) ''danger'' w1)
      | (Some response, w1) \<Rightarrow>
          if \<not> ok response
          then fetchMessages P n2 t
                 (showNotification
                    (''Error searching messages: '' @
                       message_or (error_of (body response)) ''Error updating message'')
                    ''danger'' (hide_editModal w1))
          else w1\<lparr>cli := displayMessages
                            (case body response of JMessages ms \<Rightarrow> ms | _ \<Rightarrow> []) (cli w1)\<rparr>)"

text \<open>The header that a polling cycle sends: \<open>dataset.lastUpdate || '0'\<close>.\<close>

definition poll_request :: "client \<Rightarrow> http_request" where
  "poll_request c =
     no_request\<lparr>header_last_update :=
       Some (case dataset_lastUpdate c of
               None \<Rightarrow> ''0''
             | Some u \<Rightarrow> if u = [] then ''0'' else u)\<rparr>"

text \<open>
  One polling cycle. The result of \<open>checkSession\<close> is awaited and dropped. \<open>n1\<close>,
  \<open>n2\<close> and \<open>n3\<close> stand for the three calls of \<open>fetch\<close> in their order.
\<close>

definition checkForNewMessages ::
  "platform \<Rightarrow> net \<Rightarrow> net \<Rightarrow> net \<Rightarrow> int \<Rightarrow> world \<Rightarrow> world" where
  "checkForNewMessages P n1 n2 n3 t w =
     (case checkSession P n1 w of
        (valid, w1) \<Rightarrow>
          (case fetch P n2 GET_checkMessages (poll_request (cli w1)) w1 of
             (None, w2) \<Rightarrow> w2
           | (Some response, w2) \<Rightarrow>
               if \<not> ok response then hide_editModal w2
               else (case body response of
                       JCheck hasUpdates lastCheck \<Rightarrow>
                         if hasUpdates then fetchMessages P n3 t w2 else w2
                     | _ \<Rightarrow> w2)))"

section \<open>Notions of the specification\<close>

text \<open>
  "The text contains the query as a case-insensitive substring", written as the
  specification says it and not as the query computes it. Two characters are the same up
  to case when they are equal or one is a capital ASCII letter and the other its small
  letter; the text contains the query when at some position of the text the query is a
  prefix, character by character up to case.
\<close>

definition upper_case :: string where
  "upper_case = ''ABCDEFGHIJKLMNOPQRSTUVWXYZ''"

definition lower_case :: string where
  "lower_case = ''abcdefghijklmnopqrstuvwxyz''"

definition same_ci :: "char \<Rightarrow> char \<Rightarrow> bool" where
  "same_ci a b =
     (a = b \<or> (a, b) \<in> set (zip upper_case lower_case)
            \<or> (b, a) \<in> set (zip upper_case lower_case))"

fun is_prefix_ci :: "string \<Rightarrow> string \<Rightarrow> bool" where
  "is_prefix_ci [] t = True"
| "is_prefix_ci (q # qs) [] = False"
| "is_prefix_ci (q # qs) (c # cs) = (same_ci q c \<and> is_prefix_ci qs cs)"

fun contains_ci :: "string \<Rightarrow> string \<Rightarrow> bool" where
  "contains_ci q [] = (q = [])"
| "contains_ci q (c # cs) = (is_prefix_ci q (c # cs) \<or> contains_ci q cs)"

text \<open>A query without the two wildcards of \<open>LIKE\<close>.\<close>

definition wildcard_free :: "string \<Rightarrow> bool" where
  "wildcard_free q = (CHR ''%'' \<notin> set q \<and> CHR ''_'' \<notin> set q)"

text \<open>
  The full list in the shape of the list routes: every stored message with the full name
  of its author. \<open>authors_exist\<close> says that every stored message has its author among
  the users, as the foreign key of \<open>Message\<close> demands.
\<close>

definition author_name :: "database \<Rightarrow> message \<Rightarrow> string" where
  "author_name d m =
     (case find_user d (user_id m) of
        None \<Rightarrow> []
      | Some u \<Rightarrow> firstName u @ '' '' @ lastName u)"

definition all_full :: "database \<Rightarrow> message_full list" where
  "all_full d = map (\<lambda>m. with_fullName m (author_name d m)) (messages d)"

definition authors_exist :: "database \<Rightarrow> bool" where
  "authors_exist d = list_all (\<lambda>m. find_user d (user_id m) \<noteq> None) (messages d)"

text \<open>
  What the list of the page shows for a list of messages and a current user, and the
  list of messages that the page reads from the body of a reply.
\<close>

definition shown :: "nat option \<Rightarrow> message_full list \<Rightarrow> item list" where
  "shown uid ms =
     (if ms = [] then [Placeholder ''No messages found'']
      else map (createMessageElement uid) ms)"

definition listed :: "body \<Rightarrow> message_full list" where
  "listed data = (case messages_of data of None \<Rightarrow> [] | Some ms \<Rightarrow> ms)"

section \<open>Sample data\<close>

text \<open>
  A platform that knows three dates (and reads \<open>0\<close> as the year 2000, as V8 does), two
  users, a message of each, and the states built from them; the concrete inputs at which
  the theorems below are instantiated.
\<close>

definition P0 :: platform where
  "P0 = \<lparr>Date_parse =
            (\<lambda>s. if s = ''2024-01-01T00:00:00.000Z'' then Some 1704067200000
                 else if s = ''2024-07-01T00:00:00.000Z'' then Some 1719792000000
                 else if s = ''0'' then Some 946684800000
                 else None),
          toISOString =
            (\<lambda>t. if t = 1704067200000 then ''2024-01-01T00:00:00.000Z''
                 else if t = 1719792000000 then ''2024-07-01T00:00:00.000Z''
                 else ''2024-06-01T00:00:00.000Z'')\<rparr>"

definition alice :: user where
  "alice = \<lparr>usr_id = 1, firstName = ''Alice'', lastName = ''Smith''\<rparr>"

definition bob :: user where
  "bob = \<lparr>usr_id = 2, firstName = ''Bob'', lastName = ''Jones''\<rparr>"

definition m1 :: message where
  "m1 = \<lparr>msg_id = 1, text = ''Hello'', user_id = 1, createdAt = 1704067200000,
          updatedAt = 1704067200000\<rparr>"

definition m2 :: message where
  "m2 = \<lparr>msg_id = 2, text = ''abc'', user_id = 2, createdAt = 1717200000000,
          updatedAt = 1717200000000\<rparr>"

definition d0 :: database where
  "d0 = \<lparr>messages = [m1, m2], users = [alice, bob], next_id = 3, fault = None\<rparr>"

definition s0 :: server where
  "s0 = \<lparr>db = d0, lastServerUpdate = 1717200000000\<rparr>"

text \<open>The same process while its database is down.\<close>

definition s0_down :: server where
  "s0_down = \<lparr>db = d0\<lparr>fault := Some (Error ''connection refused'')\<rparr>,
              lastServerUpdate = 1717200000000\<rparr>"

definition session_of :: "nat \<Rightarrow> session" where
  "session_of uid = \<lparr>userId = Some uid, isLoggedIn = True, fullName = None, lastUpdate = None\<rparr>"

definition no_session :: session where
  "no_session = \<lparr>userId = None, isLoggedIn = False, fullName = None, lastUpdate = None\<rparr>"

definition c0 :: client where
  "c0 = \<lparr>messagesList = [], dataset_lastUpdate = None, currentUserId = None,
          location = ''/main'', notifications = [], editMessageInput = [],
          editModal = False, deleteModal = False\<rparr>"

definition w0 :: "session \<Rightarrow> world" where
  "w0 se = \<lparr>srv = s0, sess = se, cli = c0, requests = []\<rparr>"

definition online :: "int \<Rightarrow> net" where
  "online t = \<lparr>up = True, srv_now = t\<rparr>"

section \<open>The polling endpoint\<close>

lemma requireAuth_next: "truthy_id (userId (session rq)) \<Longrightarrow> requireAuth rq = None"
  by (simp add: requireAuth_def)

lemma api_checkMessages:
  "truthy_id (userId (session rq)) \<Longrightarrow>
   api P GET_checkMessages rq now s = checkMessages P rq now s"
  by (simp add: api_def requireAuth_next)

text \<open>
  Claim C1. A poll of \<open>checkMessages\<close> from an authenticated session is answered 200 with
  the JSON \<open>{ hasUpdates, lastCheck }\<close>: \<open>hasUpdates\<close> is true exactly when the
  watermark is strictly greater than the cursor read from the \<open>Last-Update\<close> header (the
  parsed date, when the header parses), and \<open>lastCheck\<close> is the ISO text of the server's
  clock at this check. Session and state are returned as they came.
\<close>

theorem checkMessages_response:
  assumes "truthy_id (userId (session rq))"
  shows "api P GET_checkMessages rq now s =
           (\<lparr>status = 200,
             body = JCheck (lastClientUpdate P rq < lastServerUpdate s) (toISOString P now)\<rparr>,
            session rq, s)
         \<and> (\<forall>h t. header_last_update rq = Some h \<and> h \<noteq> [] \<and> Date_parse P h = Some t
                \<longrightarrow> lastClientUpdate P rq = t)"
  using assms by (simp add: api_checkMessages checkMessages_def lastClientUpdate_def)

lemmas sample_defs = P0_def alice_def bob_def m1_def m2_def d0_def s0_def session_of_def
  no_session_def request_of_def c0_def w0_def online_def no_request_def truthy_id_def

theorem checkMessages_response_witness:
  "api P0 GET_checkMessages
     (request_of (no_request\<lparr>header_last_update := Some ''2024-01-01T00:00:00.000Z''\<rparr>)
        (session_of 1))
     1719792000000 s0 =
   (\<lparr>status = 200, body = JCheck True ''2024-07-01T00:00:00.000Z''\<rparr>, session_of 1, s0)
   \<and> lastClientUpdate P0
       (request_of (no_request\<lparr>header_last_update := Some ''2024-01-01T00:00:00.000Z''\<rparr>)
          (session_of 1)) = 1704067200000"
proof -
  let ?rq = "request_of (no_request\<lparr>header_last_update := Some ''2024-01-01T00:00:00.000Z''\<rparr>)
               (session_of 1)"
  have auth: "truthy_id (userId (session ?rq))"
    by (simp add: sample_defs)
  have cur: "lastClientUpdate P0 ?rq = 1704067200000"
    by (simp add: lastClientUpdate_def sample_defs)
  from checkMessages_response [OF auth, of P0 1719792000000 s0] cur
  show ?thesis by (simp add: sample_defs)
qed

text \<open>
  Claim C2. When the \<open>Last-Update\<close> header is absent, empty, or gives an invalid date,
  the poll does not fail: the cursor is the epoch, so \<open>hasUpdates\<close> says whether the
  watermark is after the epoch, and is true whenever it is.
\<close>

theorem checkMessages_epoch_default:
  assumes "truthy_id (userId (session rq))"
    and "header_last_update rq = None
         \<or> (\<exists>h. header_last_update rq = Some h \<and> (h = [] \<or> Date_parse P h = None))"
  shows "lastClientUpdate P rq = 0
         \<and> fst (api P GET_checkMessages rq now s) =
             \<lparr>status = 200, body = JCheck (0 < lastServerUpdate s) (toISOString P now)\<rparr>
         \<and> (0 < lastServerUpdate s \<longrightarrow>
              body (fst (api P GET_checkMessages rq now s)) = JCheck True (toISOString P now))"
proof -
  from assms(2) have c: "lastClientUpdate P rq = 0"
    by (auto simp: lastClientUpdate_def)
  with assms(1) show ?thesis
    by (simp add: api_checkMessages checkMessages_def)
qed

theorem checkMessages_epoch_default_witness:
  "lastClientUpdate P0 (request_of (no_request\<lparr>header_last_update := Some ''not a date''\<rparr>) (session_of 1)) = 0
   \<and> lastClientUpdate P0 (request_of no_request (session_of 1)) = 0
   \<and> body (fst (api P0 GET_checkMessages
        (request_of (no_request\<lparr>header_last_update := Some ''not a date''\<rparr>) (session_of 1))
        1719792000000 s0)) = JCheck True ''2024-07-01T00:00:00.000Z''"
proof -
  let ?rq = "request_of (no_request\<lparr>header_last_update := Some ''not a date''\<rparr>) (session_of 1)"
  let ?rq' = "request_of no_request (session_of 1)"
  have auth: "truthy_id (userId (session ?rq))" "truthy_id (userId (session ?rq'))"
    by (simp_all add: sample_defs)
  have h: "header_last_update ?rq = None
           \<or> (\<exists>h. header_last_update ?rq = Some h \<and> (h = [] \<or> Date_parse P0 h = None))"
    by (simp add: sample_defs)
  have h': "header_last_update ?rq' = None
           \<or> (\<exists>h. header_last_update ?rq' = Some h \<and> (h = [] \<or> Date_parse P0 h = None))"
    by (simp add: sample_defs)
  have w: "0 < lastServerUpdate s0" by (simp add: s0_def)
  from checkMessages_epoch_default [OF auth(1) h, of 1719792000000 s0]
    checkMessages_epoch_default [OF auth(2) h', of 1719792000000 s0] w
  show ?thesis by (simp add: P0_def)
qed

section \<open>Writes and the watermark\<close>

lemma no_match_filter:
  "filter (matches i u) ms = [] \<Longrightarrow> filter (\<lambda>m. \<not> matches i u m) ms = ms"
  by (induction ms) (auto split: if_splits)

lemma no_match_map:
  "filter (matches i u) ms = [] \<Longrightarrow> map (\<lambda>m. if matches i u m then f m else m) ms = ms"
  by (induction ms) (auto split: if_splits)

lemma deleteMessage_watermark:
  "lastServerUpdate (snd (snd (deleteMessage rq now s))) =
     (if status (fst (deleteMessage rq now s)) = 200 then now else lastServerUpdate s)"
  by (simp add: deleteMessage_def Let_def split: sum.splits prod.splits)

lemma updateMessage_watermark:
  "lastServerUpdate (snd (snd (updateMessage rq now s))) =
     (if status (fst (updateMessage rq now s)) = 200 then now else lastServerUpdate s)"
  by (simp add: updateMessage_def Let_def split: sum.splits prod.splits)

lemma createMessage_watermark:
  "lastServerUpdate (snd (snd (createMessage rq now s))) =
     (if status (fst (createMessage rq now s)) = 201 then now else lastServerUpdate s)"
  by (simp add: createMessage_def Let_def split: sum.splits prod.splits option.splits)

lemma getAllMessages_state: "snd (snd (getAllMessages rq now s)) = s"
  by (simp add: getAllMessages_def Let_def split: sum.splits option.splits)

lemma getMessagesByText_state: "snd (snd (getMessagesByText rq s)) = s"
  by (simp add: getMessagesByText_def split: sum.splits option.splits)

lemma api_watermark:
  "lastServerUpdate (snd (snd (api P r rq now s))) = lastServerUpdate s
   \<or> lastServerUpdate (snd (snd (api P r rq now s))) = now"
proof (cases "requireAuth rq")
  case (Some resp)
  then show ?thesis
    by (simp add: api_def verifyUserSession_def split: option.splits)
next
  case None
  show ?thesis
  proof (cases r)
    case GET_verifyUserSession
    then show ?thesis by (simp add: api_def verifyUserSession_def split: option.splits)
  next
    case GET_message
    with None show ?thesis by (simp add: api_def getAllMessages_state)
  next
    case DELETE_message
    with None show ?thesis by (simp add: api_def deleteMessage_watermark)
  next
    case PUT_message
    with None show ?thesis by (simp add: api_def updateMessage_watermark)
  next
    case POST_message
    with None show ?thesis by (simp add: api_def createMessage_watermark)
  next
    case GET_logout
    with None show ?thesis by (simp add: api_def logout_def)
  next
    case GET_searchMessagesByText
    with None show ?thesis by (simp add: api_def getMessagesByText_state)
  next
    case GET_checkMessages
    with None show ?thesis by (simp add: api_def checkMessages_def)
  qed
qed

lemma watermarks_Cons:
  "watermarks P ((r, rq, now) # ops) s =
     lastServerUpdate (snd (snd (api P r rq now s)))
       # watermarks P ops (snd (snd (api P r rq now s)))"
  by (simp add: watermarks_def Let_def)

lemma watermarks_sorted:
  "sorted (lastServerUpdate s # map (\<lambda>op. snd (snd op)) ops) \<Longrightarrow>
   sorted (lastServerUpdate s # watermarks P ops s)"
proof (induction ops arbitrary: s)
  case Nil
  then show ?case by (simp add: watermarks_def)
next
  case (Cons op ops)
  obtain r rq now where op: "op = (r, rq, now)" by (cases op) auto
  let ?s' = "snd (snd (api P r rq now s))"
  from Cons.prems op have le: "lastServerUpdate s \<le> now"
    and tl: "sorted (now # map (\<lambda>op. snd (snd op)) ops)"
    and tl0: "sorted (lastServerUpdate s # map (\<lambda>op. snd (snd op)) ops)"
    by auto
  from api_watermark [of P r rq now s]
  have step: "lastServerUpdate s \<le> lastServerUpdate ?s'"
    and next_ok: "sorted (lastServerUpdate ?s' # map (\<lambda>op. snd (snd op)) ops)"
    using le tl tl0 by auto
  from Cons.IH [OF next_ok] step show ?case
    unfolding op watermarks_Cons by auto
qed

text \<open>
  Claim C3. A create answered 201, an update answered 200 and a delete answered 200 each
  leave the watermark at the reading of the clock they were served at; and over any run of
  requests whose clock readings do not decrease (starting from a watermark not after the
  first of them) the watermark does not decrease. The clock is the only way in which it
  could: a request leaves the watermark as it was or at the reading of the clock.
\<close>

theorem watermark_set_on_write_and_monotone:
  "(status (fst (createMessage rq now s)) = 201 \<longrightarrow>
      lastServerUpdate (snd (snd (createMessage rq now s))) = now)
   \<and> (status (fst (updateMessage rq now s)) = 200 \<longrightarrow>
      lastServerUpdate (snd (snd (updateMessage rq now s))) = now)
   \<and> (status (fst (deleteMessage rq now s)) = 200 \<longrightarrow>
      lastServerUpdate (snd (snd (deleteMessage rq now s))) = now)
   \<and> (sorted (lastServerUpdate s # map (\<lambda>op. snd (snd op)) ops) \<longrightarrow>
      sorted (lastServerUpdate s # watermarks P ops s))
   \<and> (lastServerUpdate (snd (snd (api P r rq now s))) = lastServerUpdate s
      \<or> lastServerUpdate (snd (snd (api P r rq now s))) = now)"
  using watermarks_sorted [of s ops P] api_watermark [of P r rq now s]
  by (simp add: createMessage_watermark updateMessage_watermark deleteMessage_watermark)


lemmas handler_defs = api_def requireAuth_def createMessage_def updateMessage_def
  deleteMessage_def getAllMessages_def getMessagesByText_def checkMessages_def
  verifyUserSession_def logout_def lastClientUpdate_def
  Message_create_def Message_update_def Message_destroy_def Message_findOne_def
  Message_findAll_def Message_findAll_like_def User_findByPk_def find_user_def
  validate_text_def matches_def set_text_def truthy_def message_or_def with_fullName_def
  Let_def

theorem watermark_set_on_write_and_monotone_witness:
  "status (fst (createMessage (request_of (no_request\<lparr>body_text := Str ''Hi''\<rparr>) (session_of 1))
      1719792000000 s0)) = 201
   \<and> lastServerUpdate (snd (snd (createMessage
        (request_of (no_request\<lparr>body_text := Str ''Hi''\<rparr>) (session_of 1))
        1719792000000 s0))) = 1719792000000
   \<and> status (fst (updateMessage
        (request_of (no_request\<lparr>params_id := 1, body_text := Str ''Hi''\<rparr>) (session_of 1))
        1719792000000 s0)) = 200
   \<and> lastServerUpdate (snd (snd (updateMessage
        (request_of (no_request\<lparr>params_id := 1, body_text := Str ''Hi''\<rparr>) (session_of 1))
        1719792000000 s0))) = 1719792000000
   \<and> status (fst (deleteMessage (request_of (no_request\<lparr>params_id := 1\<rparr>) (session_of 1))
        1719792000000 s0)) = 200
   \<and> lastServerUpdate (snd (snd (deleteMessage
        (request_of (no_request\<lparr>params_id := 1\<rparr>) (session_of 1)) 1719792000000 s0)))
       = 1719792000000
   \<and> sorted (lastServerUpdate s0 # map (\<lambda>op. snd (snd op))
        [(POST_message, request_of (no_request\<lparr>body_text := Str ''Hi''\<rparr>) (session_of 1),
          1719792000000),
         (DELETE_message, request_of (no_request\<lparr>params_id := 1\<rparr>) (session_of 2),
          1719792000001),
         (DELETE_message, request_of (no_request\<lparr>params_id := 2\<rparr>) (session_of 2),
          1719792000002)])
   \<and> sorted (lastServerUpdate s0 # watermarks P0
        [(POST_message, request_of (no_request\<lparr>body_text := Str ''Hi''\<rparr>) (session_of 1),
          1719792000000),
         (DELETE_message, request_of (no_request\<lparr>params_id := 1\<rparr>) (session_of 2),
          1719792000001),
         (DELETE_message, request_of (no_request\<lparr>params_id := 2\<rparr>) (session_of 2),
          1719792000002)] s0)
   \<and> watermarks P0
        [(POST_message, request_of (no_request\<lparr>body_text := Str ''Hi''\<rparr>) (session_of 1),
          1719792000000),
         (DELETE_message, request_of (no_request\<lparr>params_id := 1\<rparr>) (session_of 2),
          1719792000001),
         (DELETE_message, request_of (no_request\<lparr>params_id := 2\<rparr>) (session_of 2),
          1719792000002)] s0 = [1719792000000, 1719792000000, 1719792000002]"
proof -
  let ?c = "request_of (no_request\<lparr>body_text := Str ''Hi''\<rparr>) (session_of 1)"
  let ?u = "request_of (no_request\<lparr>params_id := 1, body_text := Str ''Hi''\<rparr>) (session_of 1)"
  let ?d = "request_of (no_request\<lparr>params_id := 1\<rparr>) (session_of 1)"
  let ?ops = "[(POST_message, ?c, 1719792000000),
         (DELETE_message, request_of (no_request\<lparr>params_id := 1\<rparr>) (session_of 2),
          1719792000001),
         (DELETE_message, request_of (no_request\<lparr>params_id := 2\<rparr>) (session_of 2),
          1719792000002)]"
  have c: "status (fst (createMessage ?c 1719792000000 s0)) = 201"
    by (simp add: handler_defs sample_defs)
  have u: "status (fst (updateMessage ?u 1719792000000 s0)) = 200"
    by (simp add: handler_defs sample_defs)
  have d: "status (fst (deleteMessage ?d 1719792000000 s0)) = 200"
    by (simp add: handler_defs sample_defs)
  have clk: "sorted (lastServerUpdate s0 # map (\<lambda>op. snd (snd op)) ?ops)"
    by (simp add: s0_def)
  have ws: "watermarks P0 ?ops s0 = [1719792000000, 1719792000000, 1719792000002]"
    by (simp add: watermarks_def handler_defs sample_defs Let_def)
  from watermark_set_on_write_and_monotone [of ?c 1719792000000 s0 ?ops P0] c clk
  have c': "lastServerUpdate (snd (snd (createMessage ?c 1719792000000 s0))) = 1719792000000"
    and m: "sorted (lastServerUpdate s0 # watermarks P0 ?ops s0)"
    by blast+
  from watermark_set_on_write_and_monotone [of ?u 1719792000000 s0 ?ops P0] u
  have u': "lastServerUpdate (snd (snd (updateMessage ?u 1719792000000 s0))) = 1719792000000"
    by blast
  from watermark_set_on_write_and_monotone [of ?d 1719792000000 s0 ?ops P0] d
  have d': "lastServerUpdate (snd (snd (deleteMessage ?d 1719792000000 s0))) = 1719792000000"
    by blast
  show ?thesis
    by (intro conjI c c' u u' d d' clk m ws)
qed


section \<open>Polling is read-only\<close>

lemma api_checkMessages_frame: "snd (api P GET_checkMessages rq now s) = (session rq, s)"
  by (simp add: api_def requireAuth_def checkMessages_def)

lemma run_polls:
  "\<forall>op\<in>set ops. fst op = GET_checkMessages \<Longrightarrow>
   run P ops s = map (\<lambda>op. api P GET_checkMessages (fst (snd op)) (snd (snd op)) s) ops"
proof (induction ops)
  case Nil
  then show ?case by simp
next
  case (Cons op ops)
  obtain r rq now where op: "op = (r, rq, now)" by (cases op) auto
  with Cons.prems have r: "r = GET_checkMessages" by simp
  have "snd (snd (api P GET_checkMessages rq now s)) = s"
    by (simp add: api_checkMessages_frame)
  with Cons op r show ?case by (simp add: Let_def)
qed

text \<open>
  Claim C4. \<open>checkMessages\<close> returns the session and the state of the process as it
  found them, behind the guard as well. So in a run of polls only, every poll leaves the
  state (and with it the watermark) as the run found it and its caller's session as it
  came, and every poll of an authenticated caller whose cursor is at or after the
  watermark is answered \<open>hasUpdates = false\<close>.
\<close>

theorem checkMessages_read_only:
  "snd (checkMessages P rq now s) = (session rq, s)
   \<and> snd (api P GET_checkMessages rq now s) = (session rq, s)
   \<and> ((\<forall>op\<in>set ops. fst op = GET_checkMessages) \<longrightarrow>
        (\<forall>res\<in>set (run P ops s). snd (snd res) = s)
        \<and> (\<forall>w\<in>set (watermarks P ops s). w = lastServerUpdate s)
        \<and> (\<forall>i<length ops. fst (snd (run P ops s ! i)) = session (fst (snd (ops ! i))))
        \<and> (\<forall>i<length ops.
              truthy_id (userId (session (fst (snd (ops ! i)))))
              \<and> lastServerUpdate s \<le> lastClientUpdate P (fst (snd (ops ! i)))
              \<longrightarrow> fst (run P ops s ! i) =
                    \<lparr>status = 200,
                     body = JCheck False (toISOString P (snd (snd (ops ! i))))\<rparr>))"
proof (intro conjI impI)
  show "snd (checkMessages P rq now s) = (session rq, s)"
    by (simp add: checkMessages_def)
  show "snd (api P GET_checkMessages rq now s) = (session rq, s)"
    by (rule api_checkMessages_frame)
next
  assume polls: "\<forall>op\<in>set ops. fst op = GET_checkMessages"
  note run = run_polls [OF polls, of P s]
  show "\<forall>res\<in>set (run P ops s). snd (snd res) = s"
    by (auto simp: run api_checkMessages_frame)
  then show "\<forall>w\<in>set (watermarks P ops s). w = lastServerUpdate s"
    by (auto simp: watermarks_def)
  show "\<forall>i<length ops. fst (snd (run P ops s ! i)) = session (fst (snd (ops ! i)))"
    by (simp add: run api_checkMessages_frame)
  show "\<forall>i<length ops.
          truthy_id (userId (session (fst (snd (ops ! i)))))
          \<and> lastServerUpdate s \<le> lastClientUpdate P (fst (snd (ops ! i)))
          \<longrightarrow> fst (run P ops s ! i) =
                \<lparr>status = 200, body = JCheck False (toISOString P (snd (snd (ops ! i))))\<rparr>"
    by (simp add: run api_checkMessages checkMessages_def)
qed

theorem checkMessages_read_only_witness:
  "snd (api P0 GET_checkMessages
          (request_of (no_request\<lparr>header_last_update := Some ''2024-07-01T00:00:00.000Z''\<rparr>)
             (session_of 1)) 1719792000000 s0) = (session_of 1, s0)
   \<and> map (\<lambda>res. snd (snd res)) (run P0
        [(GET_checkMessages,
          request_of (no_request\<lparr>header_last_update := Some ''2024-07-01T00:00:00.000Z''\<rparr>)
            (session_of 1), 1719792000000),
         (GET_checkMessages,
          request_of (no_request\<lparr>header_last_update := Some ''2024-07-01T00:00:00.000Z''\<rparr>)
            (session_of 1), 1704067200000)] s0) = [s0, s0]
   \<and> map fst (run P0
        [(GET_checkMessages,
          request_of (no_request\<lparr>header_last_update := Some ''2024-07-01T00:00:00.000Z''\<rparr>)
            (session_of 1), 1719792000000),
         (GET_checkMessages,
          request_of (no_request\<lparr>header_last_update := Some ''2024-07-01T00:00:00.000Z''\<rparr>)
            (session_of 1), 1704067200000)] s0) =
       [\<lparr>status = 200, body = JCheck False ''2024-07-01T00:00:00.000Z''\<rparr>,
        \<lparr>status = 200, body = JCheck False ''2024-01-01T00:00:00.000Z''\<rparr>]"
proof -
  let ?rq = "request_of (no_request\<lparr>header_last_update := Some ''2024-07-01T00:00:00.000Z''\<rparr>)
               (session_of 1)"
  let ?ops = "[(GET_checkMessages, ?rq, 1719792000000), (GET_checkMessages, ?rq, 1704067200000)]"
  note th = checkMessages_read_only [of P0 ?rq 1719792000000 s0 ?ops]
  have polls: "\<forall>op\<in>set ?ops. fst op = GET_checkMessages" by simp
  have auth: "truthy_id (userId (session ?rq))" by (simp add: sample_defs)
  have cur: "lastServerUpdate s0 \<le> lastClientUpdate P0 ?rq"
    by (simp add: lastClientUpdate_def sample_defs)
  have len: "length (run P0 ?ops s0) = 2" by (simp add: Let_def)
  from th have 1: "snd (api P0 GET_checkMessages ?rq 1719792000000 s0) = (session_of 1, s0)"
    by (simp add: request_of_def)
  note th2 = th [THEN conjunct2, THEN conjunct2, THEN mp, OF polls]
  from th2 [THEN conjunct1] have "\<forall>res\<in>set (run P0 ?ops s0). snd (snd res) = s0" .
  then have 2: "map (\<lambda>res. snd (snd res)) (run P0 ?ops s0) = [s0, s0]"
    by (auto simp: Let_def)
  note resp = th2 [THEN conjunct2, THEN conjunct2, THEN conjunct2]
  from resp [rule_format, of 0] auth cur
  have r0: "fst (run P0 ?ops s0 ! 0) =
              \<lparr>status = 200, body = JCheck False ''2024-07-01T00:00:00.000Z''\<rparr>"
    by (simp add: P0_def)
  from resp [rule_format, of 1] auth cur
  have r1: "fst (run P0 ?ops s0 ! 1) =
              \<lparr>status = 200, body = JCheck False ''2024-01-01T00:00:00.000Z''\<rparr>"
    by (simp add: P0_def)
  have 3: "map fst (run P0 ?ops s0) =
       [\<lparr>status = 200, body = JCheck False ''2024-07-01T00:00:00.000Z''\<rparr>,
        \<lparr>status = 200, body = JCheck False ''2024-01-01T00:00:00.000Z''\<rparr>]"
    using r0 r1 len by (simp add: Let_def)
  show ?thesis by (intro conjI 1 2 3)
qed

section \<open>Messages of another user\<close>

lemma not_owned_filter:
  "(\<forall>m\<in>set ms. msg_id m = i \<longrightarrow> Some (user_id m) \<noteq> u) \<Longrightarrow> filter (matches i u) ms = []"
  by (induction ms) (auto simp: matches_def)

lemma deleteMessage_not_owned:
  assumes "filter (matches (params_id rq) (userId (session rq))) (messages (db s)) = []"
  shows "deleteMessage rq now s =
           (if fault (db s) = None
            then \<lparr>status = 404, body = JError ''Message not found''\<rparr>
            else \<lparr>status = 500, body = JError ''Internal server error''\<rparr>,
            session rq, s)"
  using assms
  by (simp add: deleteMessage_def Message_destroy_def Let_def no_match_filter
        split: option.splits)

lemma updateMessage_not_owned:
  assumes "filter (matches (params_id rq) (userId (session rq))) (messages (db s)) = []"
  shows "updateMessage rq now s =
           (if body_text rq = Undefined
               \<or> (validate_text (body_text rq) = None \<and> fault (db s) = None)
            then \<lparr>status = 404, body = JError ''Message not found''\<rparr>
            else \<lparr>status = 500, body = JError ''Internal server error''\<rparr>,
            session rq, s)"
  using assms
  by (auto simp: updateMessage_def Message_update_def Let_def no_match_map
        split: option.splits)

text \<open>
  Claim C10, as amended. An authenticated user names a message id under which no message
  of that user is stored. An update whose text is absent is answered 404 "Message not
  found" in any case, no query being made. A delete, and an update whose text passes
  validation, is answered 404 "Message not found" while the database answers and 500
  while it is down; an update whose text is given and fails validation is answered 500.
  In every case the session and the state of the process, the messages and the watermark
  with it, are as before.
\<close>

theorem not_owned_unchanged:
  assumes "truthy_id (userId (session rq))"
    and "\<forall>m\<in>set (messages (db s)).
           msg_id m = params_id rq \<longrightarrow> Some (user_id m) \<noteq> userId (session rq)"
  shows "api P DELETE_message rq now s =
           (if fault (db s) = None
            then \<lparr>status = 404, body = JError ''Message not found''\<rparr>
            else \<lparr>status = 500, body = JError ''Internal server error''\<rparr>,
            session rq, s)
         \<and> api P PUT_message rq now s =
           (if body_text rq = Undefined
               \<or> (validate_text (body_text rq) = None \<and> fault (db s) = None)
            then \<lparr>status = 404, body = JError ''Message not found''\<rparr>
            else \<lparr>status = 500, body = JError ''Internal server error''\<rparr>,
            session rq, s)"
proof -
  from assms(2)
  have none: "filter (matches (params_id rq) (userId (session rq))) (messages (db s)) = []"
    by (rule not_owned_filter)
  from assms(1) have "api P DELETE_message rq now s = deleteMessage rq now s"
    and "api P PUT_message rq now s = updateMessage rq now s"
    by (simp_all add: api_def requireAuth_next)
  then show ?thesis
    by (simp only: deleteMessage_not_owned [OF none] updateMessage_not_owned [OF none] simp_thms)
qed

theorem not_owned_unchanged_witness:
  "api P0 DELETE_message (request_of (no_request\<lparr>params_id := 1\<rparr>) (session_of 2))
     1719792000000 s0 =
     (\<lparr>status = 404, body = JError ''Message not found''\<rparr>, session_of 2, s0)
   \<and> api P0 PUT_message
       (request_of (no_request\<lparr>params_id := 1, body_text := Str ''mine''\<rparr>) (session_of 2))
       1719792000000 s0 =
     (\<lparr>status = 404, body = JError ''Message not found''\<rparr>, session_of 2, s0)
   \<and> api P0 DELETE_message (request_of (no_request\<lparr>params_id := 1\<rparr>) (session_of 2))
     1719792000000 s0_down =
     (\<lparr>status = 500, body = JError ''Internal server error''\<rparr>, session_of 2, s0_down)
   \<and> api P0 PUT_message (request_of (no_request\<lparr>params_id := 1\<rparr>) (session_of 2))
     1719792000000 s0_down =
     (\<lparr>status = 404, body = JError ''Message not found''\<rparr>, session_of 2, s0_down)"
proof -
  let ?d = "request_of (no_request\<lparr>params_id := 1\<rparr>) (session_of 2)"
  let ?u = "request_of (no_request\<lparr>params_id := 1, body_text := Str ''mine''\<rparr>) (session_of 2)"
  have auth: "truthy_id (userId (session ?d))" "truthy_id (userId (session ?u))"
    by (simp_all add: sample_defs)
  have foreign: "\<forall>m\<in>set (messages (db s0)).
           msg_id m = params_id ?d \<longrightarrow> Some (user_id m) \<noteq> userId (session ?d)"
    "\<forall>m\<in>set (messages (db s0)).
           msg_id m = params_id ?u \<longrightarrow> Some (user_id m) \<noteq> userId (session ?u)"
    "\<forall>m\<in>set (messages (db s0_down)).
           msg_id m = params_id ?d \<longrightarrow> Some (user_id m) \<noteq> userId (session ?d)"
    by (simp_all add: s0_down_def sample_defs)
  have up: "fault (db s0) = None" and down: "fault (db s0_down) \<noteq> None"
    by (simp_all add: s0_down_def sample_defs)
  have v: "validate_text (body_text ?u) = None" "body_text ?u \<noteq> Undefined"
    "body_text ?d = Undefined"
    by (simp_all add: validate_text_def sample_defs)
  have se: "session ?d = session_of 2" "session ?u = session_of 2"
    by (simp_all add: request_of_def)
  from not_owned_unchanged [OF auth(1) foreign(1), of P0 1719792000000, THEN conjunct1]
  have 1: "api P0 DELETE_message ?d 1719792000000 s0 =
             (\<lparr>status = 404, body = JError ''Message not found''\<rparr>, session_of 2, s0)"
    by (simp only: up se simp_thms if_True)
  from not_owned_unchanged [OF auth(2) foreign(2), of P0 1719792000000, THEN conjunct2]
  have 2: "api P0 PUT_message ?u 1719792000000 s0 =
             (\<lparr>status = 404, body = JError ''Message not found''\<rparr>, session_of 2, s0)"
    by (simp only: up v se simp_thms if_True)
  note th = not_owned_unchanged [OF auth(1) foreign(3), of P0 1719792000000]
  from th [THEN conjunct1] down
  have 3: "api P0 DELETE_message ?d 1719792000000 s0_down =
             (\<lparr>status = 500, body = JError ''Internal server error''\<rparr>, session_of 2, s0_down)"
    by (simp only: se simp_thms if_False)
  from th [THEN conjunct2]
  have 4: "api P0 PUT_message ?d 1719792000000 s0_down =
             (\<lparr>status = 404, body = JError ''Message not found''\<rparr>, session_of 2, s0_down)"
    by (simp only: v se simp_thms if_True)
  from 1 2 3 4 show ?thesis by (intro conjI)
qed

text \<open>
  The claim as stated fails: Bob's update of Alice's message with an empty text is
  answered 500, not 404.
\<close>

theorem not_owned_update_counterexample:
  "truthy_id (userId (session
      (request_of (no_request\<lparr>params_id := 1, body_text := Str []\<rparr>) (session_of 2))))
   \<and> filter (matches 1 (Some 2)) (messages (db s0)) = []
   \<and> fst (api P0 PUT_message
        (request_of (no_request\<lparr>params_id := 1, body_text := Str []\<rparr>) (session_of 2))
        1719792000000 s0) = \<lparr>status = 500, body = JError ''Internal server error''\<rparr>
   \<and> status (fst (api P0 PUT_message
        (request_of (no_request\<lparr>params_id := 1, body_text := Str []\<rparr>) (session_of 2))
        1719792000000 s0)) \<noteq> 404"
  by (simp add: handler_defs sample_defs)

section \<open>The client\<close>

lemma session_request_of [simp]: "session (request_of h se) = se"
  by (simp add: request_of_def)

lemma foldl_addMessage:
  "foldl addMessage c ms =
     c\<lparr>messagesList := messagesList c @ map (createMessageElement (currentUserId c)) ms\<rparr>"
  by (induction ms arbitrary: c) (simp_all add: addMessage_def)

lemma displayMessages_shown:
  "displayMessages ms c = c\<lparr>messagesList := shown (currentUserId c) ms\<rparr>"
  by (simp add: displayMessages_def shown_def foldl_addMessage)

lemma fetch_down:
  "\<not> up n \<Longrightarrow> fetch P n r h w = (None, w\<lparr>requests := requests w @ [(r, h)]\<rparr>)"
  by (simp add: fetch_def)

lemma fetch_up:
  "up n \<Longrightarrow>
   fetch P n r h w =
     (Some (fst (api P r (request_of h (sess w)) (srv_now n) (srv w))),
      w\<lparr>requests := requests w @ [(r, h)],
         srv := snd (snd (api P r (request_of h (sess w)) (srv_now n) (srv w))),
         sess := fst (snd (api P r (request_of h (sess w)) (srv_now n) (srv w)))\<rparr>)"
  by (simp add: fetch_def split: prod.splits)

lemma fetch_requests: "requests (snd (fetch P n r h w)) = requests w @ [(r, h)]"
  by (cases "up n") (simp_all add: fetch_up fetch_down)

lemma fetch_cli: "cli (snd (fetch P n r h w)) = cli w"
  by (cases "up n") (simp_all add: fetch_up fetch_down)

lemma api_GET_message_listed:
  "messages_of (body (fst (api P GET_message rq now s))) \<noteq> None"
  by (simp add: api_def requireAuth_def getAllMessages_def messages_of_def Let_def
        split: sum.splits option.splits)

lemma api_GET_message_state: "snd (snd (api P GET_message rq now s)) = s"
  by (simp add: api_def requireAuth_def getAllMessages_state)

lemma fetchMessages_requests:
  "requests (fetchMessages P n t w) = requests w @ [(GET_message, no_request)]"
proof (cases "up n")
  case True
  then show ?thesis
    using api_GET_message_listed [of P "request_of no_request (sess w)" "srv_now n" "srv w"]
    by (auto simp: fetchMessages_def fetch_up)
next
  case False
  then show ?thesis
    by (simp add: fetchMessages_def fetch_down showNotification_def)
qed

lemma fetchMessages_srv: "srv (fetchMessages P n t w) = srv w"
proof (cases "up n")
  case True
  then show ?thesis
    using api_GET_message_listed [of P "request_of no_request (sess w)" "srv_now n" "srv w"]
    by (auto simp: fetchMessages_def fetch_up api_GET_message_state)
next
  case False
  then show ?thesis
    by (simp add: fetchMessages_def fetch_down showNotification_def)
qed

lemma fetchMessages_up:
  assumes "up n"
  shows "cli (fetchMessages P n t w) =
           (cli w)\<lparr>messagesList :=
                      shown (currentUserId (cli w))
                        (listed (body (fst (api P GET_message (request_of no_request (sess w))
                                              (srv_now n) (srv w))))),
                    dataset_lastUpdate := Some (toISOString P t)\<rparr>"
  using assms
    api_GET_message_listed [of P "request_of no_request (sess w)" "srv_now n" "srv w"]
  by (auto simp: fetchMessages_def fetch_up displayMessages_shown listed_def)

lemma messagesWithFullNames_all:
  "list_all (\<lambda>m. find_user d (user_id m) \<noteq> None) ms \<Longrightarrow>
   messagesWithFullNames (map (\<lambda>m. (m, find_user d (user_id m))) ms) =
     Some (map (\<lambda>m. with_fullName m (author_name d m)) ms)"
  by (induction ms) (auto simp: author_name_def)

lemma api_GET_message_all:
  assumes "truthy_id (userId (session rq))" and "fault (db s) = None" and "authors_exist (db s)"
  shows "fst (api P GET_message rq now s) = \<lparr>status = 200, body = JMessages (all_full (db s))\<rparr>"
  using assms
  by (simp add: api_def requireAuth_next getAllMessages_def Message_findAll_def Let_def
        authors_exist_def messagesWithFullNames_all all_full_def)


section \<open>The polling cycle\<close>

lemma api_verify_invalid:
  "\<not> truthy_id (userId se) \<Longrightarrow>
   api P GET_verifyUserSession (request_of h se) now s =
     (\<lparr>status = 401, body = JInfo ''No active session''\<rparr>, se, s)"
  by (simp add: api_def verifyUserSession_def truthy_id_def split: option.splits)

lemma api_guarded_invalid:
  "\<not> truthy_id (userId se) \<Longrightarrow> r \<noteq> GET_verifyUserSession \<Longrightarrow>
   api P r (request_of h se) now s =
     (\<lparr>status = 401, body = JInfo ''Session expired''\<rparr>, se, s)"
  by (simp add: api_def requireAuth_def)

lemma checkSession_invalid:
  assumes "\<not> truthy_id (userId (sess w))" and "up n"
  shows "checkSession P n w =
           (False, w\<lparr>requests := requests w @ [(GET_verifyUserSession, no_request)],
                     cli := (cli w)\<lparr>location := ''/login''\<rparr>\<rparr>)"
  using assms by (simp add: checkSession_def fetch_up api_verify_invalid)

lemma checkSession_requests:
  "requests (snd (checkSession P n w)) = requests w @ [(GET_verifyUserSession, no_request)]"
  using fetch_requests [of P n GET_verifyUserSession no_request w]
  by (auto simp: checkSession_def split: prod.splits option.splits body.splits)

lemma checkForNewMessages_requests:
  "\<exists>rest. requests (checkForNewMessages P n1 n2 n3 t w) =
     requests w @ [(GET_verifyUserSession, no_request),
                   (GET_checkMessages, poll_request (cli (snd (checkSession P n1 w))))] @ rest"
proof -
  obtain valid w1 where cs: "checkSession P n1 w = (valid, w1)" by (cases "checkSession P n1 w")
  obtain r w2 where f: "fetch P n2 GET_checkMessages (poll_request (cli w1)) w1 = (r, w2)"
    by (cases "fetch P n2 GET_checkMessages (poll_request (cli w1)) w1")
  from cs checkSession_requests [of P n1 w]
  have r1: "requests w1 = requests w @ [(GET_verifyUserSession, no_request)]" by simp
  from f fetch_requests [of P n2 GET_checkMessages "poll_request (cli w1)" w1]
  have r2: "requests w2 = requests w1 @ [(GET_checkMessages, poll_request (cli w1))]" by simp
  have "requests (checkForNewMessages P n1 n2 n3 t w) = requests w2
        \<or> requests (checkForNewMessages P n1 n2 n3 t w) = requests w2 @ [(GET_message, no_request)]"
    using cs f
    by (auto simp: checkForNewMessages_def hide_editModal_def fetchMessages_requests
          split: option.splits body.splits)
  with r1 r2 cs show ?thesis by auto
qed

text \<open>
  Claim C9, as amended. Every polling cycle first calls the session check and then, in
  every case, the polling endpoint. When the session is invalid (and both calls are
  answered) the session check sets the location to the login page, the polling call is
  answered 401 by the guard, and the cycle ends there: nothing is fetched, and the list,
  the cursor, the session and the server are as before.
\<close>

theorem polling_cycle_validates_then_polls:
  "(\<exists>rest. requests (checkForNewMessages P n1 n2 n3 t w) =
      requests w @ [(GET_verifyUserSession, no_request),
                    (GET_checkMessages, poll_request (cli (snd (checkSession P n1 w))))] @ rest)
   \<and> (\<not> truthy_id (userId (sess w)) \<and> up n1 \<and> up n2 \<longrightarrow>
        checkForNewMessages P n1 n2 n3 t w =
          w\<lparr>requests := requests w @ [(GET_verifyUserSession, no_request),
                                       (GET_checkMessages, poll_request (cli w))],
            cli := (cli w)\<lparr>location := ''/login'', editModal := False\<rparr>\<rparr>)"
proof (intro conjI impI)
  show "\<exists>rest. requests (checkForNewMessages P n1 n2 n3 t w) =
      requests w @ [(GET_verifyUserSession, no_request),
                    (GET_checkMessages, poll_request (cli (snd (checkSession P n1 w))))] @ rest"
    by (rule checkForNewMessages_requests)
next
  assume a: "\<not> truthy_id (userId (sess w)) \<and> up n1 \<and> up n2"
  then have cs: "checkSession P n1 w =
           (False, w\<lparr>requests := requests w @ [(GET_verifyUserSession, no_request)],
                     cli := (cli w)\<lparr>location := ''/login''\<rparr>\<rparr>)"
    by (simp add: checkSession_invalid)
  from a show "checkForNewMessages P n1 n2 n3 t w =
          w\<lparr>requests := requests w @ [(GET_verifyUserSession, no_request),
                                       (GET_checkMessages, poll_request (cli w))],
            cli := (cli w)\<lparr>location := ''/login'', editModal := False\<rparr>\<rparr>"
    by (simp add: checkForNewMessages_def cs fetch_up api_guarded_invalid ok_def
          hide_editModal_def poll_request_def)
qed

theorem polling_cycle_validates_then_polls_witness:
  "checkForNewMessages P0 (online 1719792000000) (online 1719792000000) (online 1719792000000)
     1719792000000 (w0 no_session) =
   (w0 no_session)
     \<lparr>requests := [(GET_verifyUserSession, no_request),
                   (GET_checkMessages, no_request\<lparr>header_last_update := Some ''0''\<rparr>)],
      cli := c0\<lparr>location := ''/login''\<rparr>\<rparr>"
proof -
  let ?n = "online 1719792000000"
  have a: "\<not> truthy_id (userId (sess (w0 no_session))) \<and> up ?n \<and> up ?n"
    by (simp add: sample_defs)
  from polling_cycle_validates_then_polls [of P0 ?n ?n ?n 1719792000000 "w0 no_session",
      THEN conjunct2, THEN mp, OF a]
  show ?thesis
    by (simp add: w0_def c0_def poll_request_def)
qed

text \<open>
  The claim as stated fails: with an invalid session the cycle sets the location to the
  login page and still sends the polling request.
\<close>

theorem polling_cycle_counterexample:
  "\<not> truthy_id (userId (sess (w0 no_session)))
   \<and> fst (checkSession P0 (online 1719792000000) (w0 no_session)) = False
   \<and> location (cli (snd (checkSession P0 (online 1719792000000) (w0 no_session)))) = ''/login''
   \<and> requests (checkForNewMessages P0 (online 1719792000000) (online 1719792000000)
        (online 1719792000000) 1719792000000 (w0 no_session)) =
       [(GET_verifyUserSession, no_request),
        (GET_checkMessages, no_request\<lparr>header_last_update := Some ''0''\<rparr>)]"
  by (simp add: checkForNewMessages_def checkSession_def fetch_def api_def requireAuth_def
        verifyUserSession_def ok_def hide_editModal_def poll_request_def request_of_def
        w0_def c0_def no_session_def online_def truthy_id_def Let_def)


text \<open>
  Claim C5. When the polling call of a cycle is answered with \<open>hasUpdates = true\<close> (and
  the refetch is answered), the cycle ends with \<open>fetchMessages\<close>: it requests the full
  list, the list of the page becomes what that reply lists and nothing else, and the
  cursor becomes the ISO text of the client's own clock \<open>t\<close>, whatever \<open>lastCheck\<close>
  the server reported. With a valid session and a sound store the list shown is the whole
  store.
\<close>

theorem poll_update_refetches:
  assumes "checkSession P n1 w = (valid, w1)"
    and "fetch P n2 GET_checkMessages (poll_request (cli w1)) w1 = (Some response, w2)"
    and "ok response"
    and "body response = JCheck True lastCheck"
    and "up n3"
  shows "checkForNewMessages P n1 n2 n3 t w = fetchMessages P n3 t w2
     \<and> requests (checkForNewMessages P n1 n2 n3 t w) = requests w2 @ [(GET_message, no_request)]
     \<and> messagesList (cli (checkForNewMessages P n1 n2 n3 t w)) =
         shown (currentUserId (cli w2))
           (listed (body (fst (api P GET_message (request_of no_request (sess w2))
                                 (srv_now n3) (srv w2)))))
     \<and> dataset_lastUpdate (cli (checkForNewMessages P n1 n2 n3 t w)) = Some (toISOString P t)
     \<and> (truthy_id (userId (sess w2)) \<and> fault (db (srv w2)) = None \<and> authors_exist (db (srv w2))
          \<longrightarrow> messagesList (cli (checkForNewMessages P n1 n2 n3 t w)) =
                shown (currentUserId (cli w2)) (all_full (db (srv w2))))"
proof -
  from assms(1-4) have eq: "checkForNewMessages P n1 n2 n3 t w = fetchMessages P n3 t w2"
    by (simp add: checkForNewMessages_def)
  note c = fetchMessages_up [OF assms(5), of P t w2]
  have all: "truthy_id (userId (sess w2)) \<and> fault (db (srv w2)) = None
             \<and> authors_exist (db (srv w2)) \<longrightarrow>
             listed (body (fst (api P GET_message (request_of no_request (sess w2))
                                  (srv_now n3) (srv w2)))) = all_full (db (srv w2))"
    by (simp add: api_GET_message_all listed_def messages_of_def)
  show ?thesis
    unfolding eq using all by (simp add: fetchMessages_requests c)
qed

theorem poll_update_refetches_witness:
  "cli (checkForNewMessages P0 (online 1704067200000) (online 1704067200000)
          (online 1704067200000) 1719792000000 (w0 (session_of 1))) =
     c0\<lparr>currentUserId := Some 1,
        messagesList := [MessageElement (with_fullName m1 ''Alice Smith'') True,
                         MessageElement (with_fullName m2 ''Bob Jones'') False],
        dataset_lastUpdate := Some ''2024-07-01T00:00:00.000Z''\<rparr>
   \<and> requests (checkForNewMessages P0 (online 1704067200000) (online 1704067200000)
          (online 1704067200000) 1719792000000 (w0 (session_of 1))) =
     [(GET_verifyUserSession, no_request),
      (GET_checkMessages, no_request\<lparr>header_last_update := Some ''0''\<rparr>),
      (GET_message, no_request)]"
proof -
  let ?n = "online 1704067200000"
  let ?w = "w0 (session_of 1)"
  let ?w1 = "?w\<lparr>requests := [(GET_verifyUserSession, no_request)],
                 cli := c0\<lparr>currentUserId := Some 1\<rparr>\<rparr>"
  let ?w2 = "?w1\<lparr>requests := [(GET_verifyUserSession, no_request),
                      (GET_checkMessages, no_request\<lparr>header_last_update := Some ''0''\<rparr>)]\<rparr>"
  let ?r = "\<lparr>status = 200, body = JCheck True ''2024-01-01T00:00:00.000Z''\<rparr>"
  have up: "up ?n" by (simp add: online_def)
  have cs: "checkSession P0 ?n ?w = (True, ?w1)"
    by (simp add: checkSession_def fetch_up up api_def verifyUserSession_def
          w0_def session_of_def)
  have f: "fetch P0 ?n GET_checkMessages (poll_request (cli ?w1)) ?w1 = (Some ?r, ?w2)"
    by (simp add: fetch_up up api_def requireAuth_def checkMessages_def lastClientUpdate_def
          poll_request_def sample_defs)
  have okr: "ok ?r" by (simp add: ok_def)
  have b: "body ?r = JCheck True ''2024-01-01T00:00:00.000Z''" by simp
  note th = poll_update_refetches [OF cs f okr b up, of 1719792000000]
  have sane: "truthy_id (userId (sess ?w2)) \<and> fault (db (srv ?w2)) = None
              \<and> authors_exist (db (srv ?w2))"
    by (simp add: authors_exist_def find_user_def sample_defs)
  have al: "all_full (db (srv ?w2)) =
              [with_fullName m1 ''Alice Smith'', with_fullName m2 ''Bob Jones'']"
    by (simp add: all_full_def author_name_def find_user_def sample_defs)
  from th [THEN conjunct2, THEN conjunct2, THEN conjunct2, THEN conjunct2, THEN mp, OF sane]
  have l: "messagesList (cli (checkForNewMessages P0 ?n ?n ?n 1719792000000 ?w)) =
             [MessageElement (with_fullName m1 ''Alice Smith'') True,
              MessageElement (with_fullName m2 ''Bob Jones'') False]"
    unfolding al
    by (simp add: shown_def createMessageElement_def with_fullName_def sample_defs)
  from th [THEN conjunct2, THEN conjunct2, THEN conjunct2, THEN conjunct1]
  have d: "dataset_lastUpdate (cli (checkForNewMessages P0 ?n ?n ?n 1719792000000 ?w)) =
             Some ''2024-07-01T00:00:00.000Z''"
    by (simp add: P0_def)
  from th [THEN conjunct2, THEN conjunct1]
  have r: "requests (checkForNewMessages P0 ?n ?n ?n 1719792000000 ?w) =
     [(GET_verifyUserSession, no_request),
      (GET_checkMessages, no_request\<lparr>header_last_update := Some ''0''\<rparr>),
      (GET_message, no_request)]"
    by simp
  from th [THEN conjunct1]
  have rest: "cli (checkForNewMessages P0 ?n ?n ?n 1719792000000 ?w) =
     (c0\<lparr>currentUserId := Some 1\<rparr>)
       \<lparr>messagesList := messagesList (cli (checkForNewMessages P0 ?n ?n ?n 1719792000000 ?w)),
        dataset_lastUpdate :=
          dataset_lastUpdate (cli (checkForNewMessages P0 ?n ?n ?n 1719792000000 ?w))\<rparr>"
    by (simp add: fetchMessages_up up)
  show ?thesis
    using rest r unfolding l d by simp
qed

section \<open>The client's own writes\<close>

lemma refetch_cli:
  assumes "up n"
  shows "cli (fetchMessages P n t (clear_list w)) =
           (cli w)\<lparr>messagesList :=
                      shown (currentUserId (cli w))
                        (listed (body (fst (api P GET_message (request_of no_request (sess w))
                                              (srv_now n) (srv w))))),
                    dataset_lastUpdate := Some (toISOString P t)\<rparr>"
  using assms by (simp add: fetchMessages_up clear_list_def)

lemma refetch_requests:
  "requests (fetchMessages P n t (clear_list w)) = requests w @ [(GET_message, no_request)]"
  by (simp add: fetchMessages_requests clear_list_def)

lemma refetch_srv: "srv (fetchMessages P n t (clear_list w)) = srv w"
  by (simp add: fetchMessages_srv clear_list_def)

lemma fetch_Some:
  assumes "fetch P n r h w = (Some response, w1)"
  shows "up n"
    and "response = fst (api P r (request_of h (sess w)) (srv_now n) (srv w))"
    and "requests w1 = requests w @ [(r, h)]"
    and "cli w1 = cli w"
    and "srv w1 = snd (snd (api P r (request_of h (sess w)) (srv_now n) (srv w)))"
    and "sess w1 = fst (snd (api P r (request_of h (sess w)) (srv_now n) (srv w)))"
  using assms by (cases "up n"; auto simp: fetch_up fetch_down)+

lemma shown_all:
  assumes "up n" and "truthy_id (userId (sess w))" and "fault (db (srv w)) = None"
    and "authors_exist (db (srv w))"
  shows "messagesList (cli (fetchMessages P n t (clear_list w))) =
           shown (currentUserId (cli w)) (all_full (db (srv w)))"
  using assms by (simp add: refetch_cli api_GET_message_all listed_def messages_of_def)

subsection \<open>What a successful write leaves in the store\<close>

lemma create_ok:
  assumes "ok (fst (api P POST_message rq now s))"
  shows "\<exists>u txt. userId (session rq) = Some u \<and> u \<noteq> 0 \<and> body_text rq = Str txt
           \<and> find_user (db s) u \<noteq> None \<and> fault (db s) = None
           \<and> snd (api P POST_message rq now s) =
               (session rq,
                s\<lparr>db := (db s)\<lparr>messages := messages (db s) @
                                   [\<lparr>msg_id = next_id (db s), text = txt, user_id = u,
                                     createdAt = now, updatedAt = now\<rparr>],
                                 next_id := Suc (next_id (db s))\<rparr>,
                  lastServerUpdate := now\<rparr>)"
  using assms
  by (auto simp: api_def requireAuth_def ok_def createMessage_def Message_create_def
        User_findByPk_def truthy_id_def truthy_def validate_text_def Let_def
        split: option.splits sum.splits if_splits jsval.splits)

lemma update_ok:
  assumes "ok (fst (api P PUT_message rq now s))"
  shows "truthy_id (userId (session rq)) \<and> fault (db s) = None
         \<and> filter (matches (params_id rq) (userId (session rq))) (messages (db s)) \<noteq> []
         \<and> (\<exists>tx. body_text rq = Str tx
              \<and> snd (api P PUT_message rq now s) =
                  (session rq,
                   s\<lparr>db := (db s)\<lparr>messages :=
                                map (\<lambda>m. if matches (params_id rq) (userId (session rq)) m
                                         then set_text tx now m else m)
                                  (messages (db s))\<rparr>,
                     lastServerUpdate := now\<rparr>))"
  using assms
  by (auto simp: api_def requireAuth_def ok_def updateMessage_def Message_update_def
        Message_findOne_def validate_text_def Let_def
        split: option.splits sum.splits if_splits jsval.splits)

lemma delete_ok:
  assumes "ok (fst (api P DELETE_message rq now s))"
  shows "truthy_id (userId (session rq)) \<and> fault (db s) = None
         \<and> snd (api P DELETE_message rq now s) =
             (session rq,
              s\<lparr>db := (db s)\<lparr>messages :=
                           filter (\<lambda>m. \<not> matches (params_id rq) (userId (session rq)) m)
                             (messages (db s))\<rparr>,
                lastServerUpdate := now\<rparr>)"
  using assms
  by (auto simp: api_def requireAuth_def ok_def deleteMessage_def Message_destroy_def Let_def
        split: option.splits sum.splits if_splits)

lemma authors_exist_append:
  "authors_exist d \<Longrightarrow> find_user d (user_id m) \<noteq> None \<Longrightarrow>
   authors_exist (d\<lparr>messages := messages d @ [m], next_id := k\<rparr>)"
  by (simp add: authors_exist_def find_user_def)

lemma user_id_set_text [simp]: "user_id (set_text v now m) = user_id m"
  by (simp add: set_text_def)

lemma msg_id_set_text [simp]: "msg_id (set_text v now m) = msg_id m"
  by (simp add: set_text_def)

lemma authors_exist_map:
  "authors_exist d \<Longrightarrow>
   authors_exist (d\<lparr>messages := map (\<lambda>m. if p m then set_text v now m else m) (messages d)\<rparr>)"
  by (auto simp: authors_exist_def find_user_def list_all_iff)

lemma authors_exist_filter:
  "authors_exist d \<Longrightarrow> authors_exist (d\<lparr>messages := filter p (messages d)\<rparr>)"
  by (simp add: authors_exist_def find_user_def list_all_iff)


subsection \<open>Send, edit, delete\<close>

lemma sendMessage_ok:
  assumes f: "fetch P n1 POST_message (no_request\<lparr>body_text := Str messageText\<rparr>) w =
                (Some response, w1)"
    and okr: "ok response" and up2: "up n2"
  shows "requests (sendMessage P messageText n1 n2 t w) =
           requests w @ [(POST_message, no_request\<lparr>body_text := Str messageText\<rparr>),
                         (GET_message, no_request)]
     \<and> dataset_lastUpdate (cli (sendMessage P messageText n1 n2 t w)) = Some (toISOString P t)
     \<and> messagesList (cli (sendMessage P messageText n1 n2 t w)) =
         shown (currentUserId (cli w))
           (listed (body (fst (api P GET_message (request_of no_request (sess w1))
                                 (srv_now n2) (srv w1)))))
     \<and> (authors_exist (db (srv w)) \<longrightarrow>
          messagesList (cli (sendMessage P messageText n1 n2 t w)) =
            shown (currentUserId (cli w))
              (all_full (db (srv (sendMessage P messageText n1 n2 t w))))
          \<and> (\<exists>x\<in>set (messages (db (srv (sendMessage P messageText n1 n2 t w)))).
                text x = messageText \<and> userId (sess w) = Some (user_id x)))"
proof -
  let ?h = "no_request\<lparr>body_text := Str messageText\<rparr>"
  let ?w' = "sendMessage P messageText n1 n2 t w"
  note fs = fetch_Some [OF f]
  from f okr have w': "?w' = showNotification ''Message sent successfully'' ''success''
                              (fetchMessages P n2 t (clear_list w1))"
    by (simp add: sendMessage_def)
  have srv': "srv ?w' = srv w1"
    by (simp add: w' showNotification_def refetch_srv)
  have cli': "cli ?w' = (cli (fetchMessages P n2 t (clear_list w1)))
                \<lparr>notifications := notifications (cli (fetchMessages P n2 t (clear_list w1)))
                                     @ [(''Message sent successfully'', ''success'')]\<rparr>"
    by (simp add: w' showNotification_def)
  have 1: "requests ?w' = requests w @ [(POST_message, ?h), (GET_message, no_request)]"
    by (simp add: w' showNotification_def refetch_requests fs(3))
  have 2: "dataset_lastUpdate (cli ?w') = Some (toISOString P t)"
    by (simp add: cli' refetch_cli [OF up2])
  have 3: "messagesList (cli ?w') =
         shown (currentUserId (cli w))
           (listed (body (fst (api P GET_message (request_of no_request (sess w1))
                                 (srv_now n2) (srv w1)))))"
    by (simp add: cli' refetch_cli [OF up2] fs(4))
  have 4: "messagesList (cli ?w') = shown (currentUserId (cli w)) (all_full (db (srv ?w')))
           \<and> (\<exists>x\<in>set (messages (db (srv ?w'))).
                text x = messageText \<and> userId (sess w) = Some (user_id x))"
    if ae: "authors_exist (db (srv w))"
  proof -
    from okr fs(2)
    have "ok (fst (api P POST_message (request_of ?h (sess w)) (srv_now n1) (srv w)))"
      by simp
    from create_ok [OF this] obtain u tx where
      u: "userId (sess w) = Some u" "u \<noteq> 0" and tx: "tx = messageText"
      and fu: "find_user (db (srv w)) u \<noteq> None" and fl: "fault (db (srv w)) = None"
      and st: "snd (api P POST_message (request_of ?h (sess w)) (srv_now n1) (srv w)) =
               (sess w,
                (srv w)\<lparr>db := (db (srv w))\<lparr>messages := messages (db (srv w)) @
                                   [\<lparr>msg_id = next_id (db (srv w)), text = tx, user_id = u,
                                     createdAt = srv_now n1, updatedAt = srv_now n1\<rparr>],
                                 next_id := Suc (next_id (db (srv w)))\<rparr>,
                  lastServerUpdate := srv_now n1\<rparr>)"
      by (auto simp: request_of_def)
    from st fs(5,6) have s1: "sess w1 = sess w"
      and d1: "db (srv w1) = (db (srv w))\<lparr>messages := messages (db (srv w)) @
                                   [\<lparr>msg_id = next_id (db (srv w)), text = tx, user_id = u,
                                     createdAt = srv_now n1, updatedAt = srv_now n1\<rparr>],
                                 next_id := Suc (next_id (db (srv w)))\<rparr>"
      by simp_all
    have ae1: "authors_exist (db (srv w1))"
      unfolding d1 using ae fu by (intro authors_exist_append) simp_all
    have a1: "truthy_id (userId (sess w1))" using u s1 by (simp add: truthy_id_def)
    have f1: "fault (db (srv w1))= None" using fl d1 by simp
    have "messagesList (cli ?w') = shown (currentUserId (cli w1)) (all_full (db (srv w1)))"
      by (simp add: cli' shown_all [OF up2 a1 f1 ae1])
    moreover have "\<exists>x\<in>set (messages (db (srv w1))).
                text x = messageText \<and> userId (sess w) = Some (user_id x)"
      using d1 u tx by simp
    ultimately show ?thesis by (simp add: srv' fs(4))
  qed
  from 1 2 3 4 show ?thesis by blast
qed

lemma saveUpdatedMessage_ok:
  assumes ne: "trim (editMessageInput (cli w)) \<noteq> []"
    and f: "fetch P n1 PUT_message
              (no_request\<lparr>params_id := msg_id msg,
                           body_text := Str (trim (editMessageInput (cli w)))\<rparr>) w =
            (Some response, w1)"
    and okr: "ok response" and up2: "up n2"
  shows "requests (saveUpdatedMessage P msg n1 n2 t w) =
           requests w @ [(PUT_message,
                          no_request\<lparr>params_id := msg_id msg,
                                       body_text := Str (trim (editMessageInput (cli w)))\<rparr>),
                         (GET_message, no_request)]
     \<and> dataset_lastUpdate (cli (saveUpdatedMessage P msg n1 n2 t w)) = Some (toISOString P t)
     \<and> messagesList (cli (saveUpdatedMessage P msg n1 n2 t w)) =
         shown (currentUserId (cli w))
           (listed (body (fst (api P GET_message (request_of no_request (sess w1))
                                 (srv_now n2) (srv w1)))))
     \<and> (authors_exist (db (srv w)) \<longrightarrow>
          messagesList (cli (saveUpdatedMessage P msg n1 n2 t w)) =
            shown (currentUserId (cli w))
              (all_full (db (srv (saveUpdatedMessage P msg n1 n2 t w))))
          \<and> (\<exists>x\<in>set (messages (db (srv (saveUpdatedMessage P msg n1 n2 t w)))).
                matches (msg_id msg) (userId (sess w)) x)
          \<and> (\<forall>x\<in>set (messages (db (srv (saveUpdatedMessage P msg n1 n2 t w)))).
                matches (msg_id msg) (userId (sess w)) x \<longrightarrow>
                text x = trim (editMessageInput (cli w))))"
proof -
  let ?txt = "trim (editMessageInput (cli w))"
  let ?h = "no_request\<lparr>params_id := msg_id msg, body_text := Str ?txt\<rparr>"
  let ?w' = "saveUpdatedMessage P msg n1 n2 t w"
  note fs = fetch_Some [OF f]
  from ne f okr have w': "?w' = showNotification ''Message updated successfully'' ''success''
                              (hide_editModal (fetchMessages P n2 t (clear_list w1)))"
    by (simp add: saveUpdatedMessage_def Let_def)
  have srv': "srv ?w' = srv w1"
    by (simp add: w' showNotification_def hide_editModal_def refetch_srv)
  have l': "messagesList (cli ?w') = messagesList (cli (fetchMessages P n2 t (clear_list w1)))"
    and d': "dataset_lastUpdate (cli ?w') =
             dataset_lastUpdate (cli (fetchMessages P n2 t (clear_list w1)))"
    by (simp_all add: w' showNotification_def hide_editModal_def)
  have 1: "requests ?w' = requests w @ [(PUT_message, ?h), (GET_message, no_request)]"
    by (simp add: w' showNotification_def hide_editModal_def refetch_requests fs(3))
  have 2: "dataset_lastUpdate (cli ?w') = Some (toISOString P t)"
    by (simp add: d' refetch_cli [OF up2])
  have 3: "messagesList (cli ?w') =
         shown (currentUserId (cli w))
           (listed (body (fst (api P GET_message (request_of no_request (sess w1))
                                 (srv_now n2) (srv w1)))))"
    by (simp add: l' refetch_cli [OF up2] fs(4))
  have 4: "messagesList (cli ?w') = shown (currentUserId (cli w)) (all_full (db (srv ?w')))
           \<and> (\<exists>x\<in>set (messages (db (srv ?w'))). matches (msg_id msg) (userId (sess w)) x)
           \<and> (\<forall>x\<in>set (messages (db (srv ?w'))).
                matches (msg_id msg) (userId (sess w)) x \<longrightarrow> text x = ?txt)"
    if ae: "authors_exist (db (srv w))"
  proof -
    let ?p = "matches (msg_id msg) (userId (sess w))"
    from okr fs(2)
    have "ok (fst (api P PUT_message (request_of ?h (sess w)) (srv_now n1) (srv w)))"
      by simp
    from update_ok [OF this]
    have a: "truthy_id (userId (sess w))" and fl: "fault (db (srv w)) = None"
      and some: "filter ?p (messages (db (srv w))) \<noteq> []"
      and st: "snd (api P PUT_message (request_of ?h (sess w)) (srv_now n1) (srv w)) =
             (sess w,
              (srv w)\<lparr>db := (db (srv w))\<lparr>messages :=
                           map (\<lambda>m. if ?p m then set_text ?txt (srv_now n1) m else m)
                             (messages (db (srv w)))\<rparr>,
                lastServerUpdate := srv_now n1\<rparr>)"
      by (simp_all add: request_of_def)
    from st fs(5,6) have s1: "sess w1 = sess w"
      and d1: "db (srv w1) = (db (srv w))\<lparr>messages :=
                           map (\<lambda>m. if ?p m then set_text ?txt (srv_now n1) m else m)
                             (messages (db (srv w)))\<rparr>"
      by simp_all
    have ae1: "authors_exist (db (srv w1))"
      unfolding d1 using ae by (rule authors_exist_map)
    have a1: "truthy_id (userId (sess w1))" using a s1 by simp
    have f1: "fault (db (srv w1))= None" using fl d1 by simp
    have keep: "?p (set_text ?txt (srv_now n1) m) = ?p m" for m
      by (simp add: matches_def)
    have "messagesList (cli ?w') = shown (currentUserId (cli w1)) (all_full (db (srv w1)))"
      by (simp add: l' shown_all [OF up2 a1 f1 ae1])
    moreover from some obtain x where "x \<in> set (messages (db (srv w)))" and "?p x"
      by (auto simp: filter_empty_conv)
    then have "\<exists>x\<in>set (messages (db (srv w1))). ?p x"
      unfolding d1 by (auto simp: keep intro!: bexI [of _ "set_text ?txt (srv_now n1) x"])
    moreover have "\<forall>x\<in>set (messages (db (srv w1))). ?p x \<longrightarrow> text x = ?txt"
      unfolding d1 by (auto simp: set_text_def)
    ultimately show ?thesis by (simp add: srv' fs(4))
  qed
  from 1 2 3 4 show ?thesis by blast
qed

lemma deleteMessage_client_ok:
  assumes f: "fetch P n1 DELETE_message (no_request\<lparr>params_id := messageId\<rparr>) w =
                (Some response, w1)"
    and okr: "ok response" and up2: "up n2"
  shows "requests (deleteMessage_client P messageId n1 n2 t w) =
           requests w @ [(DELETE_message, no_request\<lparr>params_id := messageId\<rparr>),
                         (GET_message, no_request)]
     \<and> dataset_lastUpdate (cli (deleteMessage_client P messageId n1 n2 t w)) =
         Some (toISOString P t)
     \<and> messagesList (cli (deleteMessage_client P messageId n1 n2 t w)) =
         shown (currentUserId (cli w))
           (listed (body (fst (api P GET_message (request_of no_request (sess w1))
                                 (srv_now n2) (srv w1)))))
     \<and> (authors_exist (db (srv w)) \<longrightarrow>
          messagesList (cli (deleteMessage_client P messageId n1 n2 t w)) =
            shown (currentUserId (cli w))
              (all_full (db (srv (deleteMessage_client P messageId n1 n2 t w))))
          \<and> (\<forall>x\<in>set (messages (db (srv (deleteMessage_client P messageId n1 n2 t w)))).
                \<not> matches messageId (userId (sess w)) x))"
proof -
  let ?h = "no_request\<lparr>params_id := messageId\<rparr>"
  let ?w' = "deleteMessage_client P messageId n1 n2 t w"
  note fs = fetch_Some [OF f]
  from f okr have w': "?w' = hide_deleteModal
                          (showNotification ''Message deleted successfully'' ''success''
                             (fetchMessages P n2 t (clear_list w1)))"
    by (simp add: deleteMessage_client_def)
  have srv': "srv ?w' = srv w1"
    by (simp add: w' showNotification_def hide_deleteModal_def refetch_srv)
  have l': "messagesList (cli ?w') = messagesList (cli (fetchMessages P n2 t (clear_list w1)))"
    and d': "dataset_lastUpdate (cli ?w') =
             dataset_lastUpdate (cli (fetchMessages P n2 t (clear_list w1)))"
    by (simp_all add: w' showNotification_def hide_deleteModal_def)
  have 1: "requests ?w' = requests w @ [(DELETE_message, ?h), (GET_message, no_request)]"
    by (simp add: w' showNotification_def hide_deleteModal_def refetch_requests fs(3))
  have 2: "dataset_lastUpdate (cli ?w') = Some (toISOString P t)"
    by (simp add: d' refetch_cli [OF up2])
  have 3: "messagesList (cli ?w') =
         shown (currentUserId (cli w))
           (listed (body (fst (api P GET_message (request_of no_request (sess w1))
                                 (srv_now n2) (srv w1)))))"
    by (simp add: l' refetch_cli [OF up2] fs(4))
  have 4: "messagesList (cli ?w') = shown (currentUserId (cli w)) (all_full (db (srv ?w')))
           \<and> (\<forall>x\<in>set (messages (db (srv ?w'))). \<not> matches messageId (userId (sess w)) x)"
    if ae: "authors_exist (db (srv w))"
  proof -
    let ?p = "matches messageId (userId (sess w))"
    from okr fs(2)
    have "ok (fst (api P DELETE_message (request_of ?h (sess w)) (srv_now n1) (srv w)))"
      by simp
    from delete_ok [OF this]
    have a: "truthy_id (userId (sess w))" and fl: "fault (db (srv w)) = None"
      and st: "snd (api P DELETE_message (request_of ?h (sess w)) (srv_now n1) (srv w)) =
             (sess w,
              (srv w)\<lparr>db := (db (srv w))\<lparr>messages :=
                           filter (\<lambda>m. \<not> ?p m) (messages (db (srv w)))\<rparr>,
                lastServerUpdate := srv_now n1\<rparr>)"
      by (simp_all add: request_of_def)
    from st fs(5,6) have s1: "sess w1 = sess w"
      and d1: "db (srv w1) =
                 (db (srv w))\<lparr>messages := filter (\<lambda>m. \<not> ?p m) (messages (db (srv w)))\<rparr>"
      by simp_all
    have ae1: "authors_exist (db (srv w1))"
      unfolding d1 using ae by (rule authors_exist_filter)
    have a1: "truthy_id (userId (sess w1))" using a s1 by simp
    have f1: "fault (db (srv w1))= None" using fl d1 by simp
    have "messagesList (cli ?w') = shown (currentUserId (cli w1)) (all_full (db (srv w1)))"
      by (simp add: l' shown_all [OF up2 a1 f1 ae1])
    moreover have "\<forall>x\<in>set (messages (db (srv w1))). \<not> ?p x"
      unfolding d1 by simp
    ultimately show ?thesis by (simp add: srv' fs(4))
  qed
  from 1 2 3 4 show ?thesis by blast
qed


text \<open>
  Claim C6. When the client's own send, edit or delete is answered \<open>ok\<close> (and the
  refetch is answered), the same call goes on, with no polling cycle in between, to
  request the full list, to rebuild the list of the page from the reply, and to set the
  cursor to the ISO text of the client's clock \<open>t\<close>. With a sound store the list shown
  is the whole store after the write, which holds the message sent, holds the edited
  message with its new text, and no longer holds the deleted message.
\<close>

theorem own_write_refetches:
  "(fetch P n1 POST_message (no_request\<lparr>body_text := Str messageText\<rparr>) w = (Some response, w1)
      \<and> ok response \<and> up n2 \<longrightarrow>
      requests (sendMessage P messageText n1 n2 t w) =
        requests w @ [(POST_message, no_request\<lparr>body_text := Str messageText\<rparr>),
                      (GET_message, no_request)]
      \<and> dataset_lastUpdate (cli (sendMessage P messageText n1 n2 t w)) = Some (toISOString P t)
      \<and> messagesList (cli (sendMessage P messageText n1 n2 t w)) =
          shown (currentUserId (cli w))
            (listed (body (fst (api P GET_message (request_of no_request (sess w1))
                                  (srv_now n2) (srv w1)))))
      \<and> (authors_exist (db (srv w)) \<longrightarrow>
           messagesList (cli (sendMessage P messageText n1 n2 t w)) =
             shown (currentUserId (cli w))
               (all_full (db (srv (sendMessage P messageText n1 n2 t w))))
           \<and> (\<exists>x\<in>set (messages (db (srv (sendMessage P messageText n1 n2 t w)))).
                 text x = messageText \<and> userId (sess w) = Some (user_id x))))
   \<and> (trim (editMessageInput (cli w)) \<noteq> []
      \<and> fetch P n1 PUT_message
            (no_request\<lparr>params_id := msg_id msg,
                         body_text := Str (trim (editMessageInput (cli w)))\<rparr>) w =
          (Some response, w1)
      \<and> ok response \<and> up n2 \<longrightarrow>
      requests (saveUpdatedMessage P msg n1 n2 t w) =
        requests w @ [(PUT_message,
                       no_request\<lparr>params_id := msg_id msg,
                                    body_text := Str (trim (editMessageInput (cli w)))\<rparr>),
                      (GET_message, no_request)]
      \<and> dataset_lastUpdate (cli (saveUpdatedMessage P msg n1 n2 t w)) = Some (toISOString P t)
      \<and> messagesList (cli (saveUpdatedMessage P msg n1 n2 t w)) =
          shown (currentUserId (cli w))
            (listed (body (fst (api P GET_message (request_of no_request (sess w1))
                                  (srv_now n2) (srv w1)))))
      \<and> (authors_exist (db (srv w)) \<longrightarrow>
           messagesList (cli (saveUpdatedMessage P msg n1 n2 t w)) =
             shown (currentUserId (cli w))
               (all_full (db (srv (saveUpdatedMessage P msg n1 n2 t w))))
           \<and> (\<exists>x\<in>set (messages (db (srv (saveUpdatedMessage P msg n1 n2 t w)))).
                 matches (msg_id msg) (userId (sess w)) x)
           \<and> (\<forall>x\<in>set (messages (db (srv (saveUpdatedMessage P msg n1 n2 t w)))).
                 matches (msg_id msg) (userId (sess w)) x \<longrightarrow>
                 text x = trim (editMessageInput (cli w)))))
   \<and> (fetch P n1 DELETE_message (no_request\<lparr>params_id := messageId\<rparr>) w = (Some response, w1)
      \<and> ok response \<and> up n2 \<longrightarrow>
      requests (deleteMessage_client P messageId n1 n2 t w) =
        requests w @ [(DELETE_message, no_request\<lparr>params_id := messageId\<rparr>),
                      (GET_message, no_request)]
      \<and> dataset_lastUpdate (cli (deleteMessage_client P messageId n1 n2 t w)) =
          Some (toISOString P t)
      \<and> messagesList (cli (deleteMessage_client P messageId n1 n2 t w)) =
          shown (currentUserId (cli w))
            (listed (body (fst (api P GET_message (request_of no_request (sess w1))
                                  (srv_now n2) (srv w1)))))
      \<and> (authors_exist (db (srv w)) \<longrightarrow>
           messagesList (cli (deleteMessage_client P messageId n1 n2 t w)) =
             shown (currentUserId (cli w))
               (all_full (db (srv (deleteMessage_client P messageId n1 n2 t w))))
           \<and> (\<forall>x\<in>set (messages (db (srv (deleteMessage_client P messageId n1 n2 t w)))).
                 \<not> matches messageId (userId (sess w)) x)))"
  by (intro conjI; intro impI; elim conjE;
      (rule sendMessage_ok | rule saveUpdatedMessage_ok | rule deleteMessage_client_ok);
      assumption)


theorem own_write_refetches_witness:
  "cli (sendMessage P0 ''Hi'' (online 1717200000001) (online 1717200000002) 1719792000000
          ((w0 (session_of 1))\<lparr>cli := c0\<lparr>currentUserId := Some 1\<rparr>\<rparr>)) =
     c0\<lparr>currentUserId := Some 1,
        messagesList :=
          [MessageElement (with_fullName m1 ''Alice Smith'') True,
           MessageElement (with_fullName m2 ''Bob Jones'') False,
           MessageElement
             (with_fullName \<lparr>msg_id = 3, text = ''Hi'', user_id = 1,
                              createdAt = 1717200000001, updatedAt = 1717200000001\<rparr>
                ''Alice Smith'') True],
        dataset_lastUpdate := Some ''2024-07-01T00:00:00.000Z'',
        notifications := [(''Message sent successfully'', ''success'')]\<rparr>
   \<and> messagesList (cli (saveUpdatedMessage P0 (with_fullName m1 ''Alice Smith'')
          (online 1717200000001) (online 1717200000002) 1719792000000
          ((w0 (session_of 1))\<lparr>cli := c0\<lparr>currentUserId := Some 1,
                                           editMessageInput := '' Hi ''\<rparr>\<rparr>))) =
       [MessageElement
          (with_fullName (m1\<lparr>text := ''Hi'', updatedAt := 1717200000001\<rparr>) ''Alice Smith'') True,
        MessageElement (with_fullName m2 ''Bob Jones'') False]
   \<and> dataset_lastUpdate (cli (saveUpdatedMessage P0 (with_fullName m1 ''Alice Smith'')
          (online 1717200000001) (online 1717200000002) 1719792000000
          ((w0 (session_of 1))\<lparr>cli := c0\<lparr>currentUserId := Some 1,
                                           editMessageInput := '' Hi ''\<rparr>\<rparr>))) =
       Some ''2024-07-01T00:00:00.000Z''
   \<and> messagesList (cli (deleteMessage_client P0 1
          (online 1717200000001) (online 1717200000002) 1719792000000
          ((w0 (session_of 1))\<lparr>cli := c0\<lparr>currentUserId := Some 1\<rparr>\<rparr>))) =
       [MessageElement (with_fullName m2 ''Bob Jones'') False]
   \<and> dataset_lastUpdate (cli (deleteMessage_client P0 1
          (online 1717200000001) (online 1717200000002) 1719792000000
          ((w0 (session_of 1))\<lparr>cli := c0\<lparr>currentUserId := Some 1\<rparr>\<rparr>))) =
       Some ''2024-07-01T00:00:00.000Z''"
proof -
  define n1 where "n1 = online 1717200000001"
  define n2 where "n2 = online 1717200000002"
  define t :: int where "t = 1719792000000"
  define w where "w = (w0 (session_of 1))\<lparr>cli := c0\<lparr>currentUserId := Some 1\<rparr>\<rparr>"
  define we where
    "we = (w0 (session_of 1))\<lparr>cli := c0\<lparr>currentUserId := Some 1, editMessageInput := '' Hi ''\<rparr>\<rparr>"
  define msg where "msg = with_fullName m1 ''Alice Smith''"
  define m3 where "m3 = \<lparr>msg_id = 3, text = ''Hi'', user_id = 1,
                          createdAt = 1717200000001, updatedAt = 1717200000001\<rparr>"
  define m1' where "m1' = m1\<lparr>text := ''Hi'', updatedAt := 1717200000001\<rparr>"
  have up: "up n1" "up n2" by (simp_all add: online_def n1_def n2_def)
  have ae: "authors_exist (db (srv w))" "authors_exist (db (srv we))"
    by (simp_all add: authors_exist_def find_user_def sample_defs w_def we_def)
  have tr: "trim (editMessageInput (cli we)) = ''Hi''"
    by (simp add: trim_def is_space_def we_def)
  have uid: "currentUserId (cli w) = Some 1" "currentUserId (cli we) = Some 1"
    by (simp_all add: w_def we_def)
  have iso: "toISOString P0 t = ''2024-07-01T00:00:00.000Z''"
    by (simp add: P0_def t_def)

  \<comment> \<open>send\<close>
  define hs where "hs = no_request\<lparr>body_text := Str ''Hi''\<rparr>"
  define As where "As = api P0 POST_message (request_of hs (sess w)) (srv_now n1) (srv w)"
  define ws where "ws = sendMessage P0 ''Hi'' n1 n2 t w"
  have As: "As = (\<lparr>status = 201, body = JMessage m3\<rparr>, session_of 1,
                  s0\<lparr>db := d0\<lparr>messages := [m1, m2, m3], next_id := 4\<rparr>,
                     lastServerUpdate := 1717200000001\<rparr>)"
    by (simp add: As_def hs_def w_def n1_def m3_def handler_defs sample_defs)
  have fs: "fetch P0 n1 POST_message (no_request\<lparr>body_text := Str ''Hi''\<rparr>) w =
              (Some (fst As), w\<lparr>requests := requests w @ [(POST_message, hs)],
                                srv := snd (snd As), sess := fst (snd As)\<rparr>)"
    unfolding As_def hs_def by (rule fetch_up [OF up(1)])
  have oks: "ok (fst As)" by (simp add: As ok_def)
  note ths = own_write_refetches [THEN conjunct1, THEN mp, OF conjI [OF fs conjI [OF oks up(2)]],
      of t, folded ws_def]
  from ths [THEN conjunct2, THEN conjunct2, THEN conjunct2, THEN mp, OF ae(1), THEN conjunct1]
  have ls0: "messagesList (cli ws) = shown (Some 1) (all_full (db (srv ws)))"
    unfolding uid .
  have wseq: "ws = showNotification ''Message sent successfully'' ''success''
                     (fetchMessages P0 n2 t
                        (clear_list (w\<lparr>requests := requests w @ [(POST_message, hs)],
                                       srv := snd (snd As), sess := fst (snd As)\<rparr>)))"
    unfolding ws_def sendMessage_def fs using oks by simp
  have srvs: "srv ws = snd (snd As)"
    by (simp add: wseq showNotification_def refetch_srv)
  have ls: "messagesList (cli ws) =
      [MessageElement (with_fullName m1 ''Alice Smith'') True,
       MessageElement (with_fullName m2 ''Bob Jones'') False,
       MessageElement (with_fullName m3 ''Alice Smith'') True]"
    by (simp add: ls0 srvs As shown_def all_full_def author_name_def find_user_def
          createMessageElement_def with_fullName_def m3_def sample_defs)
  from ths [THEN conjunct2, THEN conjunct1]
  have ds: "dataset_lastUpdate (cli ws) = Some ''2024-07-01T00:00:00.000Z''"
    unfolding iso .
  have rs: "cli ws = (c0\<lparr>currentUserId := Some 1\<rparr>)
              \<lparr>messagesList := messagesList (cli ws),
               dataset_lastUpdate := dataset_lastUpdate (cli ws),
               notifications := [(''Message sent successfully'', ''success'')]\<rparr>"
    by (simp add: wseq showNotification_def refetch_cli [OF up(2)] c0_def w_def)
  have 1: "cli ws = c0\<lparr>currentUserId := Some 1,
        messagesList :=
          [MessageElement (with_fullName m1 ''Alice Smith'') True,
           MessageElement (with_fullName m2 ''Bob Jones'') False,
           MessageElement (with_fullName m3 ''Alice Smith'') True],
        dataset_lastUpdate := Some ''2024-07-01T00:00:00.000Z'',
        notifications := [(''Message sent successfully'', ''success'')]\<rparr>"
    using rs unfolding ls ds by simp

  \<comment> \<open>edit\<close>
  define hu where
    "hu = no_request\<lparr>params_id := msg_id msg,
                      body_text := Str (trim (editMessageInput (cli we)))\<rparr>"
  define Au where "Au = api P0 PUT_message (request_of hu (sess we)) (srv_now n1) (srv we)"
  define wu where "wu = saveUpdatedMessage P0 msg n1 n2 t we"
  have Au: "Au = (\<lparr>status = 200, body = JMessage m1'\<rparr>, session_of 1,
                  s0\<lparr>db := d0\<lparr>messages := [m1', m2]\<rparr>, lastServerUpdate := 1717200000001\<rparr>)"
    unfolding Au_def hu_def tr
    by (simp add: msg_def m1'_def we_def n1_def handler_defs sample_defs)
  have ne: "trim (editMessageInput (cli we)) \<noteq> []" unfolding tr by simp
  have fu: "fetch P0 n1 PUT_message
              (no_request\<lparr>params_id := msg_id msg,
                           body_text := Str (trim (editMessageInput (cli we)))\<rparr>) we =
              (Some (fst Au), we\<lparr>requests := requests we @ [(PUT_message, hu)],
                                 srv := snd (snd Au), sess := fst (snd Au)\<rparr>)"
    unfolding Au_def hu_def by (rule fetch_up [OF up(1)])
  have oku: "ok (fst Au)" by (simp add: Au ok_def)
  note thu = own_write_refetches [THEN conjunct2, THEN conjunct1, THEN mp,
      OF conjI [OF ne conjI [OF fu conjI [OF oku up(2)]]], of t, folded wu_def]
  from thu [THEN conjunct2, THEN conjunct2, THEN conjunct2, THEN mp, OF ae(2), THEN conjunct1]
  have lu0: "messagesList (cli wu) = shown (Some 1) (all_full (db (srv wu)))"
    unfolding uid .
  have wueq: "wu = showNotification ''Message updated successfully'' ''success''
                     (hide_editModal (fetchMessages P0 n2 t
                        (clear_list (we\<lparr>requests := requests we @ [(PUT_message, hu)],
                                        srv := snd (snd Au), sess := fst (snd Au)\<rparr>))))"
    unfolding wu_def saveUpdatedMessage_def Let_def fu using oku ne by simp
  have srvu: "srv wu = snd (snd Au)"
    by (simp add: wueq showNotification_def hide_editModal_def refetch_srv)
  have 2: "messagesList (cli wu) =
       [MessageElement (with_fullName m1' ''Alice Smith'') True,
        MessageElement (with_fullName m2 ''Bob Jones'') False]"
    by (simp add: lu0 srvu Au shown_def all_full_def author_name_def find_user_def
          createMessageElement_def with_fullName_def m1'_def sample_defs)
  from thu [THEN conjunct2, THEN conjunct1]
  have 3: "dataset_lastUpdate (cli wu) = Some ''2024-07-01T00:00:00.000Z''"
    unfolding iso .

  \<comment> \<open>delete\<close>
  define hd where "hd = no_request\<lparr>params_id := 1\<rparr>"
  define Ad where "Ad = api P0 DELETE_message (request_of hd (sess w)) (srv_now n1) (srv w)"
  define wd where "wd = deleteMessage_client P0 1 n1 n2 t w"
  have Ad: "Ad = (\<lparr>status = 200, body = JInfo ''Message deleted successfully''\<rparr>,
                  session_of 1,
                  s0\<lparr>db := d0\<lparr>messages := [m2]\<rparr>, lastServerUpdate := 1717200000001\<rparr>)"
    by (simp add: Ad_def hd_def w_def n1_def handler_defs sample_defs)
  have fd: "fetch P0 n1 DELETE_message (no_request\<lparr>params_id := 1\<rparr>) w =
              (Some (fst Ad), w\<lparr>requests := requests w @ [(DELETE_message, hd)],
                                srv := snd (snd Ad), sess := fst (snd Ad)\<rparr>)"
    unfolding Ad_def hd_def by (rule fetch_up [OF up(1)])
  have okd: "ok (fst Ad)" by (simp add: Ad ok_def)
  note thd = own_write_refetches [THEN conjunct2, THEN conjunct2, THEN mp,
      OF conjI [OF fd conjI [OF okd up(2)]], of t, folded wd_def]
  from thd [THEN conjunct2, THEN conjunct2, THEN conjunct2, THEN mp, OF ae(1), THEN conjunct1]
  have ld0: "messagesList (cli wd) = shown (Some 1) (all_full (db (srv wd)))"
    unfolding uid .
  have wdeq: "wd = hide_deleteModal
                     (showNotification ''Message deleted successfully'' ''success''
                        (fetchMessages P0 n2 t
                           (clear_list (w\<lparr>requests := requests w @ [(DELETE_message, hd)],
                                          srv := snd (snd Ad), sess := fst (snd Ad)\<rparr>))))"
    unfolding wd_def deleteMessage_client_def fd using okd by simp
  have srvd: "srv wd = snd (snd Ad)"
    by (simp add: wdeq showNotification_def hide_deleteModal_def refetch_srv)
  have 4: "messagesList (cli wd) = [MessageElement (with_fullName m2 ''Bob Jones'') False]"
    by (simp add: ld0 srvd Ad shown_def all_full_def author_name_def find_user_def
          createMessageElement_def with_fullName_def sample_defs)
  from thd [THEN conjunct2, THEN conjunct1]
  have 5: "dataset_lastUpdate (cli wd) = Some ''2024-07-01T00:00:00.000Z''"
    unfolding iso .
  from 1 2 3 4 5 show ?thesis
    unfolding ws_def wu_def wd_def w_def we_def n1_def n2_def t_def msg_def m3_def m1'_def
    by (intro conjI)
qed

section \<open>Rejected writes\<close>

lemma createMessage_invalid:
  assumes "validate_text (body_text rq) \<noteq> None"
  shows "status (fst (createMessage rq now s)) = 400
         \<and> (\<exists>e. body (fst (createMessage rq now s)) = JError e)
         \<and> snd (createMessage rq now s) = (session rq, s)"
  using assms
  by (auto simp: createMessage_def Message_create_def User_findByPk_def Let_def
        split: sum.splits option.splits)

lemma updateMessage_invalid:
  assumes "validate_text (body_text rq) \<noteq> None"
  shows "updateMessage rq now s =
           (if body_text rq = Undefined
            then \<lparr>status = 404, body = JError ''Message not found''\<rparr>
            else \<lparr>status = 500, body = JError ''Internal server error''\<rparr>,
            session rq, s)"
  using assms by (auto simp: updateMessage_def Message_update_def Let_def)

lemma api_POST_invalid:
  assumes "validate_text (body_text rq) \<noteq> None"
  shows "\<not> ok (fst (api P POST_message rq now s))"
    and "snd (api P POST_message rq now s) = (session rq, s)"
  using createMessage_invalid [OF assms, of now s]
  by (auto simp: api_def requireAuth_def ok_def)

lemma api_PUT_invalid:
  assumes "validate_text (body_text rq) \<noteq> None"
  shows "\<not> ok (fst (api P PUT_message rq now s))"
    and "snd (api P PUT_message rq now s) = (session rq, s)"
  using updateMessage_invalid [OF assms, of now s]
  by (auto simp: api_def requireAuth_def ok_def split: if_splits)

lemma sendMessage_invalid:
  assumes v: "validate_text (Str messageText) \<noteq> None" and up: "up n1"
  shows "srv (sendMessage P messageText n1 n2 t w) = srv w
         \<and> messagesList (cli (sendMessage P messageText n1 n2 t w)) = messagesList (cli w)
         \<and> (\<exists>e. notifications (cli (sendMessage P messageText n1 n2 t w)) =
                  notifications (cli w) @ [(e, ''danger'')])"
proof -
  let ?h = "no_request\<lparr>body_text := Str messageText\<rparr>"
  have b: "validate_text (body_text (request_of ?h (sess w))) \<noteq> None"
    using v by (simp add: request_of_def)
  note a = api_POST_invalid [OF b, of P "srv_now n1" "srv w"]
  show ?thesis
    using a by (simp add: sendMessage_def fetch_up [OF up] showNotification_def)
qed

lemma saveUpdatedMessage_invalid:
  assumes v: "validate_text (Str (trim (editMessageInput (cli w)))) \<noteq> None" and up: "up n1"
  shows "srv (saveUpdatedMessage P msg n1 n2 t w) = srv w
         \<and> messagesList (cli (saveUpdatedMessage P msg n1 n2 t w)) = messagesList (cli w)
         \<and> (\<exists>e. notifications (cli (saveUpdatedMessage P msg n1 n2 t w)) =
                  notifications (cli w) @ [(e, ''danger'')])"
proof (cases "trim (editMessageInput (cli w)) = []")
  case True
  then show ?thesis
    by (simp add: saveUpdatedMessage_def showNotification_def)
next
  case False
  let ?h = "no_request\<lparr>params_id := msg_id msg,
                         body_text := Str (trim (editMessageInput (cli w)))\<rparr>"
  have b: "validate_text (body_text (request_of ?h (sess w))) \<noteq> None"
    using v by (simp add: request_of_def)
  note a = api_PUT_invalid [OF b, of P "srv_now n1" "srv w"]
  show ?thesis
    using a False
    by (simp add: saveUpdatedMessage_def Let_def fetch_up [OF up] showNotification_def
          hide_editModal_def)
qed

text \<open>
  Claim C7. A create whose text fails the validation of the model (absent, null, empty,
  or longer than 500) is answered 400 with an error. An update whose text fails it is
  answered with an error as well: 404 when the text is absent, 500 when it is null, empty
  or too long. In both cases the session and the state of the process, the messages and
  the watermark with it, are as before, and behind the guard the response is likewise not
  \<open>ok\<close>. On the page, a send or an edit with such a text that is answered ends with a
  notification of type danger and leaves the server as it was.
\<close>

theorem invalid_text_rejected:
  "(validate_text (body_text rq) \<noteq> None \<longrightarrow>
      status (fst (createMessage rq now s)) = 400
      \<and> (\<exists>e. body (fst (createMessage rq now s)) = JError e)
      \<and> snd (createMessage rq now s) = (session rq, s)
      \<and> \<not> ok (fst (api P POST_message rq now s))
      \<and> snd (api P POST_message rq now s) = (session rq, s))
   \<and> (validate_text (body_text rq) \<noteq> None \<longrightarrow>
      updateMessage rq now s =
        (if body_text rq = Undefined
         then \<lparr>status = 404, body = JError ''Message not found''\<rparr>
         else \<lparr>status = 500, body = JError ''Internal server error''\<rparr>,
         session rq, s)
      \<and> \<not> ok (fst (api P PUT_message rq now s))
      \<and> snd (api P PUT_message rq now s) = (session rq, s))
   \<and> (validate_text (Str messageText) \<noteq> None \<and> up n1 \<longrightarrow>
      srv (sendMessage P messageText n1 n2 t w) = srv w
      \<and> messagesList (cli (sendMessage P messageText n1 n2 t w)) = messagesList (cli w)
      \<and> (\<exists>e. notifications (cli (sendMessage P messageText n1 n2 t w)) =
               notifications (cli w) @ [(e, ''danger'')]))
   \<and> (validate_text (Str (trim (editMessageInput (cli w)))) \<noteq> None \<and> up n1 \<longrightarrow>
      srv (saveUpdatedMessage P msg n1 n2 t w) = srv w
      \<and> messagesList (cli (saveUpdatedMessage P msg n1 n2 t w)) = messagesList (cli w)
      \<and> (\<exists>e. notifications (cli (saveUpdatedMessage P msg n1 n2 t w)) =
               notifications (cli w) @ [(e, ''danger'')]))"
proof (intro conjI impI)
  assume v: "validate_text (body_text rq) \<noteq> None"
  note c = createMessage_invalid [OF v, of now s]
  from c show "status (fst (createMessage rq now s)) = 400"
    and "\<exists>e. body (fst (createMessage rq now s)) = JError e"
    and "snd (createMessage rq now s) = (session rq, s)"
    by blast+
  show "\<not> ok (fst (api P POST_message rq now s))"
    and "snd (api P POST_message rq now s) = (session rq, s)"
    by (rule api_POST_invalid [OF v])+
next
  assume v: "validate_text (body_text rq) \<noteq> None"
  then show "updateMessage rq now s =
        (if body_text rq = Undefined
         then \<lparr>status = 404, body = JError ''Message not found''\<rparr>
         else \<lparr>status = 500, body = JError ''Internal server error''\<rparr>,
         session rq, s)"
    by (rule updateMessage_invalid)
  from v show "\<not> ok (fst (api P PUT_message rq now s))"
    and "snd (api P PUT_message rq now s) = (session rq, s)"
    by (simp_all add: api_PUT_invalid)
next
  assume "validate_text (Str messageText) \<noteq> None \<and> up n1"
  then have "srv (sendMessage P messageText n1 n2 t w) = srv w
      \<and> messagesList (cli (sendMessage P messageText n1 n2 t w)) = messagesList (cli w)
      \<and> (\<exists>e. notifications (cli (sendMessage P messageText n1 n2 t w)) =
               notifications (cli w) @ [(e, ''danger'')])"
    by (intro sendMessage_invalid) simp_all
  then show "srv (sendMessage P messageText n1 n2 t w) = srv w"
    and "messagesList (cli (sendMessage P messageText n1 n2 t w)) = messagesList (cli w)"
    and "\<exists>e. notifications (cli (sendMessage P messageText n1 n2 t w)) =
               notifications (cli w) @ [(e, ''danger'')]"
    by blast+
next
  assume "validate_text (Str (trim (editMessageInput (cli w)))) \<noteq> None \<and> up n1"
  then have "srv (saveUpdatedMessage P msg n1 n2 t w) = srv w
      \<and> messagesList (cli (saveUpdatedMessage P msg n1 n2 t w)) = messagesList (cli w)
      \<and> (\<exists>e. notifications (cli (saveUpdatedMessage P msg n1 n2 t w)) =
               notifications (cli w) @ [(e, ''danger'')])"
    by (intro saveUpdatedMessage_invalid) simp_all
  then show "srv (saveUpdatedMessage P msg n1 n2 t w) = srv w"
    and "messagesList (cli (saveUpdatedMessage P msg n1 n2 t w)) = messagesList (cli w)"
    and "\<exists>e. notifications (cli (saveUpdatedMessage P msg n1 n2 t w)) =
               notifications (cli w) @ [(e, ''danger'')]"
    by blast+
qed

theorem invalid_text_rejected_witness:
  "createMessage (request_of (no_request\<lparr>body_text := Str []\<rparr>) (session_of 1))
     1719792000000 s0 =
     (\<lparr>status = 400, body = JError ''Both text and user_id are required.''\<rparr>, session_of 1, s0)
   \<and> updateMessage (request_of (no_request\<lparr>params_id := 1, body_text := Str []\<rparr>) (session_of 1))
     1719792000000 s0 =
     (\<lparr>status = 500, body = JError ''Internal server error''\<rparr>, session_of 1, s0)
   \<and> snd (api P0 PUT_message
        (request_of (no_request\<lparr>params_id := 1, body_text := Str []\<rparr>) (session_of 1))
        1719792000000 s0) = (session_of 1, s0)
   \<and> updateMessage (request_of (no_request\<lparr>params_id := 1\<rparr>) (session_of 1))
     1719792000000 s0 =
     (\<lparr>status = 404, body = JError ''Message not found''\<rparr>, session_of 1, s0)
   \<and> srv (sendMessage P0 [] (online 1719792000000) (online 1719792000000) 1719792000000
        (w0 (session_of 1))) = s0
   \<and> notifications (cli (sendMessage P0 [] (online 1719792000000) (online 1719792000000)
        1719792000000 (w0 (session_of 1)))) =
       [(''Both text and user_id are required.'', ''danger'')]
   \<and> srv (saveUpdatedMessage P0 (with_fullName m1 ''Alice Smith'') (online 1719792000000)
        (online 1719792000000) 1719792000000 (w0 (session_of 1))) = s0
   \<and> notifications (cli (saveUpdatedMessage P0 (with_fullName m1 ''Alice Smith'')
        (online 1719792000000) (online 1719792000000) 1719792000000 (w0 (session_of 1)))) =
       [(''Message cannot be empty'', ''danger'')]"
proof -
  let ?c = "request_of (no_request\<lparr>body_text := Str []\<rparr>) (session_of 1)"
  let ?u = "request_of (no_request\<lparr>params_id := 1, body_text := Str []\<rparr>) (session_of 1)"
  define n where "n = online 1719792000000"
  define w where "w = w0 (session_of 1)"
  define msg where "msg = with_fullName m1 ''Alice Smith''"
  have vc: "validate_text (body_text ?c) \<noteq> None"
    by (simp add: validate_text_def sample_defs)
  let ?a = "request_of (no_request\<lparr>params_id := 1\<rparr>) (session_of 1)"
  have vu: "validate_text (body_text ?u) \<noteq> None"
    by (simp add: validate_text_def sample_defs)
  have va: "validate_text (body_text ?a) \<noteq> None"
    by (simp add: validate_text_def sample_defs)
  have bu: "body_text ?u \<noteq> Undefined" and ba: "body_text ?a = Undefined"
    and sa: "session ?a = session_of 1"
    by (simp_all add: sample_defs)
  have vs: "validate_text (Str []) \<noteq> None \<and> up n"
    by (simp add: validate_text_def n_def online_def)
  have ve: "validate_text (Str (trim (editMessageInput (cli w)))) \<noteq> None \<and> up n"
    by (simp add: validate_text_def trim_def n_def online_def w_def w0_def c0_def)
  have sc: "session ?c = session_of 1" and su: "session ?u = session_of 1"
    by (simp_all add: request_of_def)
  note thc = invalid_text_rejected [of ?c 1719792000000 s0 P0 "[]" n n 1719792000000 w msg]
  note thu = invalid_text_rejected [of ?u 1719792000000 s0 P0 "[]" n n 1719792000000 w msg]
  from thc [THEN conjunct1, THEN mp, OF vc]
  have c: "snd (createMessage ?c 1719792000000 s0) = (session_of 1, s0)"
    unfolding sc by blast
  have c1: "fst (createMessage ?c 1719792000000 s0) =
              \<lparr>status = 400, body = JError ''Both text and user_id are required.''\<rparr>"
    by (simp add: createMessage_def truthy_def sample_defs)
  note thu' = thu [THEN conjunct2, THEN conjunct1, THEN mp, OF vu]
  from thu' [THEN conjunct1] bu
  have u: "updateMessage ?u 1719792000000 s0 =
             (\<lparr>status = 500, body = JError ''Internal server error''\<rparr>, session_of 1, s0)"
    unfolding su by (simp only: if_False)
  from thu' [THEN conjunct2, THEN conjunct2]
  have a: "snd (api P0 PUT_message ?u 1719792000000 s0) = (session_of 1, s0)"
    unfolding su .
  from invalid_text_rejected [of ?a 1719792000000 s0 P0 "[]" n n 1719792000000 w msg,
      THEN conjunct2, THEN conjunct1, THEN mp, OF va, THEN conjunct1]
  have ab: "updateMessage ?a 1719792000000 s0 =
             (\<lparr>status = 404, body = JError ''Message not found''\<rparr>, session_of 1, s0)"
    unfolding sa ba by (simp only: if_True simp_thms)
  from c c1 have 1: "createMessage ?c 1719792000000 s0 =
     (\<lparr>status = 400, body = JError ''Both text and user_id are required.''\<rparr>, session_of 1, s0)"
    by (simp add: prod_eq_iff)
  from thc [THEN conjunct2, THEN conjunct2, THEN conjunct1, THEN mp, OF vs, THEN conjunct1]
  have 4: "srv (sendMessage P0 [] n n 1719792000000 w) = s0"
    by (simp add: w_def w0_def)
  have 5: "notifications (cli (sendMessage P0 [] n n 1719792000000 w)) =
             [(''Both text and user_id are required.'', ''danger'')]"
    by (simp add: sendMessage_def fetch_up api_def requireAuth_def createMessage_def truthy_def
          ok_def showNotification_def error_of_def message_or_def n_def w_def sample_defs)
  from thc [THEN conjunct2, THEN conjunct2, THEN conjunct2, THEN mp, OF ve, THEN conjunct1]
  have 6: "srv (saveUpdatedMessage P0 msg n n 1719792000000 w) = s0"
    by (simp add: w_def w0_def)
  have 7: "notifications (cli (saveUpdatedMessage P0 msg n n 1719792000000 w)) =
             [(''Message cannot be empty'', ''danger'')]"
    by (simp add: saveUpdatedMessage_def trim_def showNotification_def w_def w0_def c0_def)
  from 1 u a ab 4 5 6 7 show ?thesis
    unfolding n_def w_def msg_def by (intro conjI)
qed

section \<open>Search\<close>

subsection \<open>The folding of \<open>LIKE\<close> is the sameness of letters up to case\<close>

lemma lower_pairs:
  "list_all (\<lambda>(x, y). lower x = y \<and> lower y = y) (zip upper_case lower_case)"
  by code_simp

lemma lower_changes:
  "\<forall>c. lower c \<noteq> c \<longrightarrow> (c, lower c) \<in> set (zip upper_case lower_case)"
  by code_simp

lemma lower_case_distinct: "distinct (map snd (zip upper_case lower_case))"
  by code_simp

lemma same_second_same_first:
  "distinct (map snd xs) \<Longrightarrow> (a, l) \<in> set xs \<Longrightarrow> (b, l) \<in> set xs \<Longrightarrow> a = b"
  by (induction xs) (auto simp: image_iff)

lemma lower_pair:
  "(x, y) \<in> set (zip upper_case lower_case) \<Longrightarrow> lower x = y \<and> lower y = y"
  using lower_pairs by (auto simp: list_all_iff)

lemma lower_same_ci: "lower a = lower b \<longleftrightarrow> same_ci a b"
proof
  assume e: "lower a = lower b"
  show "same_ci a b"
  proof (cases "lower a = a")
    case fixed_a: True
    show ?thesis
    proof (cases "lower b = b")
      case True
      with fixed_a e show ?thesis by (simp add: same_ci_def)
    next
      case False
      with lower_changes have "(b, lower b) \<in> set (zip upper_case lower_case)" by blast
      with e fixed_a show ?thesis by (simp add: same_ci_def)
    qed
  next
    case False
    with lower_changes have a: "(a, lower a) \<in> set (zip upper_case lower_case)" by blast
    show ?thesis
    proof (cases "lower b = b")
      case True
      with a e show ?thesis by (simp add: same_ci_def)
    next
      case False
      with lower_changes have "(b, lower b) \<in> set (zip upper_case lower_case)" by blast
      with a e have "a = b"
        using same_second_same_first [OF lower_case_distinct] by metis
      then show ?thesis by (simp add: same_ci_def)
    qed
  qed
next
  assume "same_ci a b"
  then consider "a = b" | "(a, b) \<in> set (zip upper_case lower_case)"
    | "(b, a) \<in> set (zip upper_case lower_case)"
    by (auto simp: same_ci_def)
  then show "lower a = lower b"
  proof cases
    case 1
    then show ?thesis by simp
  next
    case 2
    from lower_pair [OF this] show ?thesis by simp
  next
    case 3
    from lower_pair [OF this] show ?thesis by simp
  qed
qed

subsection \<open>\<open>LIKE\<close> with a pattern between two \<open>%\<close>\<close>

lemma like_percent: "like [CHR ''%''] t"
  by (induction t) simp_all

lemma like_prefix:
  "wildcard_free q \<Longrightarrow> like (q @ [CHR ''%'']) t = is_prefix_ci q t"
proof (induction q arbitrary: t)
  case Nil
  then show ?case by (simp add: like_percent)
next
  case (Cons a q)
  then have a: "a \<noteq> CHR ''%''" "a \<noteq> CHR ''_''" and q: "wildcard_free q"
    by (auto simp: wildcard_free_def)
  show ?case
  proof (cases t)
    case Nil
    with a show ?thesis by simp
  next
    case (Cons c cs)
    with a Cons.IH [OF q] show ?thesis by (simp add: lower_same_ci)
  qed
qed

lemma like_contains:
  "wildcard_free q \<Longrightarrow> like (CHR ''%'' # q @ [CHR ''%'']) t = contains_ci q t"
proof (induction t)
  case Nil
  then show ?case
    using like_prefix [of q "[]"] by (cases q) simp_all
next
  case (Cons c cs)
  then show ?case
    using like_prefix [of q "c # cs"] by simp
qed

text \<open>
  The recursive form of "contains" is the usual one: the text is some \<open>u @ x @ v\<close> with
  \<open>x\<close> the query, character by character up to case.
\<close>

lemma is_prefix_ci_iff:
  "is_prefix_ci q t \<longleftrightarrow> (\<exists>x v. t = x @ v \<and> list_all2 same_ci q x)"
proof (induction q t rule: is_prefix_ci.induct)
  case (1 t)
  then show ?case by simp
next
  case (2 q qs)
  then show ?case by (simp add: list_all2_Cons1)
next
  case (3 q qs c cs)
  show ?case
  proof
    assume "is_prefix_ci (q # qs) (c # cs)"
    with 3 obtain x v where "same_ci q c" "cs = x @ v" "list_all2 same_ci qs x" by auto
    then have "c # cs = (c # x) @ v \<and> list_all2 same_ci (q # qs) (c # x)" by simp
    then show "\<exists>x v. c # cs = x @ v \<and> list_all2 same_ci (q # qs) x" by blast
  next
    assume "\<exists>x v. c # cs = x @ v \<and> list_all2 same_ci (q # qs) x"
    then obtain x v where xv: "c # cs = x @ v" "list_all2 same_ci (q # qs) x" by blast
    then obtain y ys where x: "x = y # ys" "same_ci q y" "list_all2 same_ci qs ys"
      by (auto simp: list_all2_Cons1)
    with xv have "y = c" "cs = ys @ v" by simp_all
    with x 3 show "is_prefix_ci (q # qs) (c # cs)" by auto
  qed
qed

lemma contains_ci_iff:
  "contains_ci q t \<longleftrightarrow> (\<exists>u x v. t = u @ x @ v \<and> list_all2 same_ci q x)"
proof (induction t)
  case Nil
  then show ?case by auto
next
  case (Cons c cs)
  show ?case
  proof
    assume "contains_ci q (c # cs)"
    then consider "is_prefix_ci q (c # cs)" | "contains_ci q cs" by auto
    then show "\<exists>u x v. c # cs = u @ x @ v \<and> list_all2 same_ci q x"
    proof cases
      case 1
      then obtain x v where "c # cs = x @ v" "list_all2 same_ci q x"
        by (auto simp: is_prefix_ci_iff)
      then have "c # cs = [] @ x @ v \<and> list_all2 same_ci q x" by simp
      then show ?thesis by blast
    next
      case 2
      with Cons.IH obtain u x v where "cs = u @ x @ v" "list_all2 same_ci q x" by blast
      then have "c # cs = (c # u) @ x @ v \<and> list_all2 same_ci q x" by simp
      then show ?thesis by blast
    qed
  next
    assume "\<exists>u x v. c # cs = u @ x @ v \<and> list_all2 same_ci q x"
    then obtain u x v where uv: "c # cs = u @ x @ v" "list_all2 same_ci q x" by blast
    show "contains_ci q (c # cs)"
    proof (cases u)
      case Nil
      with uv have "is_prefix_ci q (c # cs)" by (auto simp: is_prefix_ci_iff)
      then show ?thesis by simp
    next
      case (Cons a u')
      with uv have "cs = u' @ x @ v" by simp
      with uv(2) Cons.IH have "contains_ci q cs" by blast
      then show ?thesis by simp
    qed
  qed
qed


subsection \<open>The endpoint and the page\<close>

lemma text_with_fullName [simp]: "text (with_fullName m n) = text m"
  by (simp add: with_fullName_def)

lemma api_search_ok:
  assumes "truthy_id (userId (session rq))" and "query_text rq = Some q" and "q \<noteq> []"
    and "fault (db s) = None" and "authors_exist (db s)"
  shows "api P GET_searchMessagesByText rq now s =
           (\<lparr>status = 200,
             body = JMessages (filter (\<lambda>m. like (''%'' @ q @ ''%'') (text m)) (all_full (db s)))\<rparr>,
            session rq, s)"
proof -
  let ?p = "\<lambda>m. like (''%'' @ q @ ''%'') (text m)"
  from assms(5) have "list_all (\<lambda>m. find_user (db s) (user_id m) \<noteq> None)
                        (filter ?p (messages (db s)))"
    by (simp add: authors_exist_def list_all_iff)
  then have "messagesWithFullNames
               (map (\<lambda>m. (m, find_user (db s) (user_id m))) (filter ?p (messages (db s)))) =
             Some (map (\<lambda>m. with_fullName m (author_name (db s) m)) (filter ?p (messages (db s))))"
    by (rule messagesWithFullNames_all)
  moreover have "map (\<lambda>m. with_fullName m (author_name (db s) m)) (filter ?p (messages (db s))) =
                 filter ?p (all_full (db s))"
    by (simp add: all_full_def filter_map o_def)
  ultimately show ?thesis
    using assms(1-4)
    by (simp add: api_def requireAuth_next getMessagesByText_def Message_findAll_like_def)
qed

lemma search_ok:
  assumes "fetch P n1 GET_searchMessagesByText (no_request\<lparr>query_text := Some q\<rparr>) w =
             (Some response, w1)"
    and "ok response"
  shows "searchMessagesByText P q n1 n2 t w =
           w1\<lparr>cli := (cli w)\<lparr>messagesList :=
                                shown (currentUserId (cli w))
                                  (case body response of JMessages ms \<Rightarrow> ms | _ \<Rightarrow> [])\<rparr>\<rparr>"
  using assms fetch_Some(4) [OF assms(1)]
  by (simp add: searchMessagesByText_def displayMessages_shown)

lemma fetchMessages_down:
  "\<not> up n \<Longrightarrow> dataset_lastUpdate (cli (fetchMessages P n t w)) = dataset_lastUpdate (cli w)"
  by (simp add: fetchMessages_def fetch_down showNotification_def)

lemma search_failed:
  assumes f: "fetch P n1 GET_searchMessagesByText (no_request\<lparr>query_text := Some q\<rparr>) w =
                (r, w1)"
    and bad: "case r of None \<Rightarrow> True | Some response \<Rightarrow> \<not> ok response"
  shows "requests (searchMessagesByText P q n1 n2 t w) =
           requests w @ [(GET_searchMessagesByText, no_request\<lparr>query_text := Some q\<rparr>),
                         (GET_message, no_request)]
         \<and> dataset_lastUpdate (cli (searchMessagesByText P q n1 n2 t w)) =
             (if up n2 then Some (toISOString P t) else dataset_lastUpdate (cli w))"
proof -
  let ?h = "no_request\<lparr>query_text := Some q\<rparr>"
  from f fetch_requests [of P n1 GET_searchMessagesByText ?h w]
    fetch_cli [of P n1 GET_searchMessagesByText ?h w]
  have r1: "requests w1 = requests w @ [(GET_searchMessagesByText, ?h)]"
    and c1: "cli w1 = cli w"
    by simp_all
  obtain x where x: "searchMessagesByText P q n1 n2 t w = fetchMessages P n2 t x"
    and rx: "requests x = requests w1"
    and dx: "dataset_lastUpdate (cli x) = dataset_lastUpdate (cli w1)"
  proof (cases r)
    case None
    with f show ?thesis
      by (intro that [of "showNotification (''Error searching messages: '' @ fetch_failed)
                            ''danger'' w1"])
        (simp_all add: searchMessagesByText_def showNotification_def)
  next
    case (Some response)
    with f bad show ?thesis
      by (intro that [of "showNotification
                            (''Error searching messages: '' @
                               message_or (error_of (body response)) ''Error updating message'')
                            ''danger'' (hide_editModal w1)"])
        (simp_all add: searchMessagesByText_def showNotification_def hide_editModal_def)
  qed
  have "requests (fetchMessages P n2 t x) =
          requests w @ [(GET_searchMessagesByText, ?h), (GET_message, no_request)]"
    by (simp add: fetchMessages_requests rx r1)
  moreover have "dataset_lastUpdate (cli (fetchMessages P n2 t x)) =
                   (if up n2 then Some (toISOString P t) else dataset_lastUpdate (cli w))"
    by (simp add: fetchMessages_up fetchMessages_down dx c1)
  ultimately show ?thesis unfolding x by simp
qed

lemma search_matches:
  assumes "q \<noteq> []" and "wildcard_free q"
    and "truthy_id (userId (sess w))" and "fault (db (srv w)) = None"
    and "authors_exist (db (srv w))" and "up n1"
  shows "fst (api P GET_message (request_of no_request (sess w)) now (srv w)) =
           \<lparr>status = 200, body = JMessages (all_full (db (srv w)))\<rparr>
     \<and> fst (api P GET_searchMessagesByText (request_of (no_request\<lparr>query_text := Some q\<rparr>) (sess w))
              (srv_now n1) (srv w)) =
           \<lparr>status = 200,
            body = JMessages (filter (\<lambda>m. contains_ci q (text m)) (all_full (db (srv w))))\<rparr>
     \<and> messagesList (cli (searchMessagesByText P q n1 n2 t w)) =
           shown (currentUserId (cli w))
             (filter (\<lambda>m. contains_ci q (text m)) (all_full (db (srv w))))
     \<and> (filter (\<lambda>m. contains_ci q (text m)) (all_full (db (srv w))) = [] \<longrightarrow>
           messagesList (cli (searchMessagesByText P q n1 n2 t w)) =
             [Placeholder ''No messages found''])
     \<and> dataset_lastUpdate (cli (searchMessagesByText P q n1 n2 t w)) =
           dataset_lastUpdate (cli w)
     \<and> requests (searchMessagesByText P q n1 n2 t w) =
           requests w @ [(GET_searchMessagesByText, no_request\<lparr>query_text := Some q\<rparr>)]
     \<and> srv (searchMessagesByText P q n1 n2 t w) = srv w"
proof -
  let ?h = "no_request\<lparr>query_text := Some q\<rparr>"
  let ?found = "filter (\<lambda>m. contains_ci q (text m)) (all_full (db (srv w)))"
  let ?r = "\<lparr>status = 200, body = JMessages ?found\<rparr>"
  have qt: "query_text (request_of ?h (sess w)) = Some q"
    by (simp add: request_of_def)
  have a: "truthy_id (userId (session (request_of ?h (sess w))))"
    using assms(3) by simp
  have api: "api P GET_searchMessagesByText (request_of ?h (sess w)) (srv_now n1) (srv w) =
               (?r, sess w, srv w)"
    using api_search_ok [OF a qt assms(1,4,5), of P "srv_now n1"]
    by (simp add: like_contains [OF assms(2)])
  have f: "fetch P n1 GET_searchMessagesByText ?h w =
             (Some ?r, w\<lparr>requests := requests w @ [(GET_searchMessagesByText, ?h)]\<rparr>)"
    by (simp add: fetch_up [OF assms(6)] api)
  have okr: "ok ?r" by (simp add: ok_def)
  note s = search_ok [OF f okr, of n2 t]
  have all: "fst (api P GET_message (request_of no_request (sess w)) now (srv w)) =
           \<lparr>status = 200, body = JMessages (all_full (db (srv w)))\<rparr>"
    using assms(3-5) by (simp add: api_GET_message_all)
  show ?thesis
    by (simp add: all api s shown_def)
qed

lemma search_ok_cursor:
  assumes "fetch P n1 GET_searchMessagesByText (no_request\<lparr>query_text := Some q\<rparr>) w =
             (Some response, w1)"
    and "ok response"
  shows "dataset_lastUpdate (cli (searchMessagesByText P q n1 n2 t w)) =
           dataset_lastUpdate (cli w)
         \<and> requests (searchMessagesByText P q n1 n2 t w) =
           requests w @ [(GET_searchMessagesByText, no_request\<lparr>query_text := Some q\<rparr>)]"
  using fetch_Some(3) [OF assms(1)]
  by (simp add: search_ok [OF assms])


text \<open>
  Claim C8, as amended. For a search by an authenticated caller with a non-empty query
  that holds neither \<open>%\<close> nor \<open>_\<close>, on a store that answers and holds the author of
  every message: the endpoint returns exactly the messages whose text contains the query
  as a substring up to the case of ASCII letters, as the sublist of what the full fetch
  returns (so in its shape, each with the full name of its author); the page shows that
  list, and "No messages found" when it is empty; and the search sends no other request
  and leaves the cursor and the server as they were. Any search that is answered \<open>ok\<close>
  sends no other request and leaves the cursor as it was. A search that is not (it is
  unanswered, or answered with an error) goes on to request the full list, which sets the
  cursor to the client's clock when that request is answered and leaves the cursor as it
  was when it is not.
\<close>

theorem search_returns_matches:
  "(q \<noteq> [] \<and> wildcard_free q \<and> truthy_id (userId (sess w)) \<and> fault (db (srv w)) = None
      \<and> authors_exist (db (srv w)) \<and> up n1 \<longrightarrow>
      fst (api P GET_message (request_of no_request (sess w)) now (srv w)) =
        \<lparr>status = 200, body = JMessages (all_full (db (srv w)))\<rparr>
      \<and> fst (api P GET_searchMessagesByText
               (request_of (no_request\<lparr>query_text := Some q\<rparr>) (sess w)) (srv_now n1) (srv w)) =
        \<lparr>status = 200,
         body = JMessages (filter (\<lambda>m. contains_ci q (text m)) (all_full (db (srv w))))\<rparr>
      \<and> messagesList (cli (searchMessagesByText P q n1 n2 t w)) =
        shown (currentUserId (cli w))
          (filter (\<lambda>m. contains_ci q (text m)) (all_full (db (srv w))))
      \<and> (filter (\<lambda>m. contains_ci q (text m)) (all_full (db (srv w))) = [] \<longrightarrow>
           messagesList (cli (searchMessagesByText P q n1 n2 t w)) =
             [Placeholder ''No messages found''])
      \<and> dataset_lastUpdate (cli (searchMessagesByText P q n1 n2 t w)) =
        dataset_lastUpdate (cli w)
      \<and> requests (searchMessagesByText P q n1 n2 t w) =
        requests w @ [(GET_searchMessagesByText, no_request\<lparr>query_text := Some q\<rparr>)]
      \<and> srv (searchMessagesByText P q n1 n2 t w) = srv w)
   \<and> (fetch P n1 GET_searchMessagesByText (no_request\<lparr>query_text := Some q\<rparr>) w =
        (Some response, w1) \<and> ok response \<longrightarrow>
      dataset_lastUpdate (cli (searchMessagesByText P q n1 n2 t w)) =
        dataset_lastUpdate (cli w)
      \<and> requests (searchMessagesByText P q n1 n2 t w) =
        requests w @ [(GET_searchMessagesByText, no_request\<lparr>query_text := Some q\<rparr>)])
   \<and> (fetch P n1 GET_searchMessagesByText (no_request\<lparr>query_text := Some q\<rparr>) w = (r, w1)
      \<and> (case r of None \<Rightarrow> True | Some response \<Rightarrow> \<not> ok response) \<longrightarrow>
      requests (searchMessagesByText P q n1 n2 t w) =
        requests w @ [(GET_searchMessagesByText, no_request\<lparr>query_text := Some q\<rparr>),
                      (GET_message, no_request)]
      \<and> dataset_lastUpdate (cli (searchMessagesByText P q n1 n2 t w)) =
        (if up n2 then Some (toISOString P t) else dataset_lastUpdate (cli w)))"
  by (intro conjI; intro impI; elim conjE;
      (rule search_matches | rule search_ok_cursor | rule search_failed); assumption)

theorem search_returns_matches_witness:
  "fst (api P0 GET_searchMessagesByText
          (request_of (no_request\<lparr>query_text := Some ''hello''\<rparr>) (session_of 1))
          1719792000000 s0) =
     \<lparr>status = 200, body = JMessages [with_fullName m1 ''Alice Smith'']\<rparr>
   \<and> messagesList (cli (searchMessagesByText P0 ''bye'' (online 1719792000000)
        (online 1719792000000) 1719792000000 (w0 (session_of 1)))) =
     [Placeholder ''No messages found'']
   \<and> dataset_lastUpdate (cli (searchMessagesByText P0 ''bye'' (online 1719792000000)
        (online 1719792000000) 1719792000000 (w0 (session_of 1)))) = None
   \<and> requests (searchMessagesByText P0 ''a_c'' (online 1719792000000)
        (online 1719792000000) 1719792000000 (w0 (session_of 1))) =
     [(GET_searchMessagesByText, no_request\<lparr>query_text := Some ''a_c''\<rparr>)]
   \<and> requests (searchMessagesByText P0 ''hello'' (online 1719792000000)
        (online 1719792000000) 1719792000000 (w0 no_session)) =
     [(GET_searchMessagesByText, no_request\<lparr>query_text := Some ''hello''\<rparr>),
      (GET_message, no_request)]
   \<and> dataset_lastUpdate (cli (searchMessagesByText P0 ''hello'' (online 1719792000000)
        \<lparr>up = False, srv_now = 0\<rparr> 1719792000000 (w0 no_session))) = None"
proof -
  define n where "n = online 1719792000000"
  define off where "off = \<lparr>up = False, srv_now = 0\<rparr>"
  define w where "w = w0 (session_of 1)"
  define v where "v = w0 no_session"
  have pre: "truthy_id (userId (sess w))" "fault (db (srv w)) = None"
    "authors_exist (db (srv w))" "up n"
    by (simp_all add: w_def n_def authors_exist_def find_user_def sample_defs)
  have q1: "''hello'' \<noteq> []" "wildcard_free ''hello''"
    and q2: "''bye'' \<noteq> []" "wildcard_free ''bye''"
    by (simp_all add: wildcard_free_def)
  have al: "all_full (db (srv w)) =
              [with_fullName m1 ''Alice Smith'', with_fullName m2 ''Bob Jones'']"
    by (simp add: w_def all_full_def author_name_def find_user_def sample_defs)
  have f1: "filter (\<lambda>m. contains_ci ''hello'' (text m)) (all_full (db (srv w))) =
              [with_fullName m1 ''Alice Smith'']"
    unfolding al by code_simp
  have f2: "filter (\<lambda>m. contains_ci ''bye'' (text m)) (all_full (db (srv w))) = []"
    unfolding al by code_simp
  have sw: "sess w = session_of 1" "srv w = s0" "srv_now n = 1719792000000"
    "dataset_lastUpdate (cli w) = None" "requests w = []"
    "dataset_lastUpdate (cli v) = None" "requests v = []"
    by (simp_all add: w_def v_def n_def w0_def c0_def online_def)
  have hyp1: "''hello'' \<noteq> [] \<and> wildcard_free ''hello'' \<and> truthy_id (userId (sess w))
              \<and> fault (db (srv w)) = None \<and> authors_exist (db (srv w)) \<and> up n"
    and hyp2: "''bye'' \<noteq> [] \<and> wildcard_free ''bye'' \<and> truthy_id (userId (sess w))
              \<and> fault (db (srv w)) = None \<and> authors_exist (db (srv w)) \<and> up n"
    using pre q1 q2 by simp_all
  note t1 = search_returns_matches [of "''hello''" w n P0 0 n 0, THEN conjunct1, THEN mp, OF hyp1]
  note t2 = search_returns_matches [of "''bye''" w n P0 0 n 1719792000000,
      THEN conjunct1, THEN mp, OF hyp2]
  from t1 [THEN conjunct2, THEN conjunct1, unfolded f1, unfolded sw]
  have 1: "fst (api P0 GET_searchMessagesByText
          (request_of (no_request\<lparr>query_text := Some ''hello''\<rparr>) (session_of 1))
          1719792000000 s0) =
     \<lparr>status = 200, body = JMessages [with_fullName m1 ''Alice Smith'']\<rparr>" .
  from t2 [THEN conjunct2, THEN conjunct2, THEN conjunct2, THEN conjunct1, THEN mp, OF f2]
  have 2: "messagesList (cli (searchMessagesByText P0 ''bye'' n n 1719792000000 w)) =
             [Placeholder ''No messages found'']" .
  from t2 [THEN conjunct2, THEN conjunct2, THEN conjunct2, THEN conjunct2, THEN conjunct1]
  have 3: "dataset_lastUpdate (cli (searchMessagesByText P0 ''bye'' n n 1719792000000 w)) = None"
    unfolding sw .

  \<comment> \<open>a search that is answered ok\<close>
  define ha where "ha = no_request\<lparr>query_text := Some ''a_c''\<rparr>"
  define A where "A = api P0 GET_searchMessagesByText (request_of ha (sess w)) (srv_now n) (srv w)"
  have fa: "fetch P0 n GET_searchMessagesByText (no_request\<lparr>query_text := Some ''a_c''\<rparr>) w =
              (Some (fst A), w\<lparr>requests := requests w @ [(GET_searchMessagesByText, ha)],
                               srv := snd (snd A), sess := fst (snd A)\<rparr>)"
    unfolding A_def ha_def by (rule fetch_up [OF pre(4)])
  have oka: "ok (fst A)"
    unfolding A_def ha_def w_def n_def by code_simp
  from search_returns_matches [of "''a_c''" w n P0 0 n 1719792000000,
      THEN conjunct2, THEN conjunct1, THEN mp, OF conjI [OF fa oka], THEN conjunct2]
  have 4: "requests (searchMessagesByText P0 ''a_c'' n n 1719792000000 w) =
             [(GET_searchMessagesByText, no_request\<lparr>query_text := Some ''a_c''\<rparr>)]"
    unfolding sw by simp

  \<comment> \<open>a search that is answered 401\<close>
  define hh where "hh = no_request\<lparr>query_text := Some ''hello''\<rparr>"
  define B where "B = api P0 GET_searchMessagesByText (request_of hh (sess v)) (srv_now n) (srv v)"
  have fb: "fetch P0 n GET_searchMessagesByText (no_request\<lparr>query_text := Some ''hello''\<rparr>) v =
              (Some (fst B), v\<lparr>requests := requests v @ [(GET_searchMessagesByText, hh)],
                               srv := snd (snd B), sess := fst (snd B)\<rparr>)"
    unfolding B_def hh_def by (rule fetch_up [OF pre(4)])
  have bad: "case Some (fst B) of None \<Rightarrow> True | Some response \<Rightarrow> \<not> ok response"
    unfolding B_def hh_def v_def n_def by code_simp
  from search_returns_matches [of "''hello''" v n P0 0 n 1719792000000,
      THEN conjunct2, THEN conjunct2, THEN mp, OF conjI [OF fb bad], THEN conjunct1]
  have 5: "requests (searchMessagesByText P0 ''hello'' n n 1719792000000 v) =
     [(GET_searchMessagesByText, no_request\<lparr>query_text := Some ''hello''\<rparr>),
      (GET_message, no_request)]"
    unfolding sw by simp
  have noff: "\<not> up off" by (simp add: off_def)
  from search_returns_matches [of "''hello''" v n P0 0 off 1719792000000,
      THEN conjunct2, THEN conjunct2, THEN mp, OF conjI [OF fb bad], THEN conjunct2]
  have 6: "dataset_lastUpdate (cli (searchMessagesByText P0 ''hello'' n off 1719792000000 v)) =
             None"
    unfolding sw using noff by simp
  from 1 2 3 4 5 6 show ?thesis
    unfolding n_def w_def v_def off_def by (intro conjI)
qed

text \<open>
  The claim as stated fails twice. The query \<open>a_c\<close> returns Bob's message \<open>abc\<close>,
  which does not contain it; and a search from an expired session is answered 401, falls
  back to \<open>fetchMessages\<close>, and so sets the cursor.
\<close>

theorem search_counterexample:
  "fst (api P0 GET_searchMessagesByText
          (request_of (no_request\<lparr>query_text := Some ''a_c''\<rparr>) (session_of 1))
          1719792000000 s0) =
     \<lparr>status = 200, body = JMessages [with_fullName m2 ''Bob Jones'']\<rparr>
   \<and> \<not> contains_ci ''a_c'' (text (with_fullName m2 ''Bob Jones''))
   \<and> dataset_lastUpdate (cli (w0 no_session)) = None
   \<and> dataset_lastUpdate (cli (searchMessagesByText P0 ''hello'' (online 1719792000000)
        (online 1719792000000) 1719792000000 (w0 no_session))) =
       Some ''2024-07-01T00:00:00.000Z''"
proof -
  have 1: "fst (api P0 GET_searchMessagesByText
          (request_of (no_request\<lparr>query_text := Some ''a_c''\<rparr>) (session_of 1))
          1719792000000 s0) =
     \<lparr>status = 200, body = JMessages [with_fullName m2 ''Bob Jones'']\<rparr>"
    by code_simp
  have 2: "\<not> contains_ci ''a_c'' (text (with_fullName m2 ''Bob Jones''))"
    by code_simp
  have 3: "dataset_lastUpdate (cli (w0 no_session)) = None"
    by (simp add: w0_def c0_def)
  have up: "up (online 1719792000000)" by (simp add: online_def)
  have na: "\<not> truthy_id (userId (sess (w0 no_session)))"
    by (simp add: w0_def no_session_def truthy_id_def)
  have f: "fetch P0 (online 1719792000000) GET_searchMessagesByText
             (no_request\<lparr>query_text := Some ''hello''\<rparr>) (w0 no_session) =
           (Some \<lparr>status = 401, body = JInfo ''Session expired''\<rparr>,
            (w0 no_session)\<lparr>requests := requests (w0 no_session) @
               [(GET_searchMessagesByText, no_request\<lparr>query_text := Some ''hello''\<rparr>)]\<rparr>)"
    by (simp add: fetch_up [OF up] api_guarded_invalid [OF na])
  have 4: "dataset_lastUpdate (cli (searchMessagesByText P0 ''hello'' (online 1719792000000)
        (online 1719792000000) 1719792000000 (w0 no_session))) =
       Some ''2024-07-01T00:00:00.000Z''"
    unfolding searchMessagesByText_def f
    by (simp add: ok_def fetchMessages_up [OF up] P0_def)
  from 1 2 3 4 show ?thesis by (intro conjI)
qed

end
